theory Spec2Isabelle
  imports Complex_Main "HOL-Library.Char_ord" "HOL-Library.List_Lexorder"
begin

section \<open>Data model\<close>

text \<open>
  The server of \<^verbatim>\<open>team-contributions/04-profile-management.js\<close> (reviews, chat) and
  \<^verbatim>\<open>team-contributions/05-notifications-polish.js\<close> (notifications).

  User identities are strings (every schema declares them \<^verbatim>\<open>String\<close>); JavaScript compares
  strings by code unit, which is the lexicographic order on \<^typ>\<open>string\<close>. Document ids
  (\<^verbatim>\<open>_id\<close>) and socket ids are natural numbers; the database hands out fresh document ids
  from a counter. Timestamps (\<^verbatim>\<open>Date.now\<close>) are natural numbers supplied by the environment.
\<close>

type_synonym user_id = string
type_synonym doc_id = nat
type_synonym socket_id = nat

text \<open>A JavaScript value inside an event payload or a notification's \<^verbatim>\<open>data\<close> bag.\<close>

datatype jval =
    JUndefined
  | JString string
  | JNumber real
  | JBool bool
  | JId doc_id
  | JDate nat
  | JObject "(string \<times> jval) list"

text \<open>An object literal: its keys in the order written.\<close>

type_synonym payload = "(string \<times> jval) list"

text \<open>A socket event: its name and the object emitted with it.\<close>

type_synonym event = "string \<times> payload"

text \<open>\<^verbatim>\<open>MessageSchema\<close>.\<close>

record message =
  mid :: doc_id
  threadId :: string
  sender :: user_id
  recipient :: user_id
  content :: string
  mtype :: string
  status :: string
  createdAt :: nat

text \<open>\<^verbatim>\<open>NotificationSchema\<close>; \<^verbatim>\<open>read\<close> defaults to false.\<close>

record notification =
  nid :: doc_id
  nuserId :: user_id
  ntype :: string
  title :: string
  nmessage :: string
  ndata :: payload
  nread :: bool
  ncreatedAt :: nat

text \<open>\<^verbatim>\<open>ReviewSchema\<close>.\<close>

record review =
  rid :: doc_id
  ruserId :: user_id
  reviewerId :: user_id
  reviewerName :: string
  rating :: real
  comment :: string
  rcreatedAt :: nat

text \<open>
  The fields of a \<^verbatim>\<open>User\<close> document that the modelled routes read or write. The key of
  the collection is an ObjectId; \<open>uid\<close> is its string form (\<^verbatim>\<open>user._id.toString()\<close>, as the
  login token carries it): 24 hexadecimal digits in lower case.
\<close>

record user =
  uid :: user_id
  firstName :: string
  lastName :: string
  urating :: real

text \<open>
  What a database call can throw; the cases are the ones the error middleware of
  \<^verbatim>\<open>05-notifications-polish.js\<close> tells apart, and anything else (a lost connection).
\<close>

datatype db_error = ValidationError string | DuplicateKey | ConnectionLost

fun error_message :: "db_error \<Rightarrow> string" where
  "error_message (ValidationError m) = m"
| "error_message DuplicateKey = ''E11000 duplicate key error''"
| "error_message ConnectionLost = ''connection lost''"

text \<open>
  The environment's script for one handler run: entry \<open>k\<close> says whether the \<open>k\<close>-th database
  call of the handler throws; a call beyond the script succeeds.
\<close>

type_synonym faults = "db_error option list"

definition fault :: "faults \<Rightarrow> nat \<Rightarrow> db_error option" where
  "fault fs k = (if k < length fs then fs ! k else None)"

text \<open>
  The server: the socket layer (connected sockets, rooms of the adapter, and what has been
  pushed to each socket so far) and the collections.
\<close>

record server =
  connected :: "socket_id set"
  rooms :: "string \<Rightarrow> socket_id set"
  inbox :: "socket_id \<Rightarrow> event list"
  messages :: "message list"
  notifications :: "notification list"
  reviews :: "review list"
  users :: "user list"
  next_id :: doc_id

definition init_server :: server where
  "init_server = \<lparr> connected = {}, rooms = (\<lambda>_. {}), inbox = (\<lambda>_. []),
     messages = [], notifications = [], reviews = [], users = [], next_id = 0 \<rparr>"

text \<open>An HTTP response: \<^verbatim>\<open>res.json\<close> with status 200, or \<^verbatim>\<open>res.status(c).json({error})\<close>.\<close>

datatype 'a reply = Success 'a | Failure nat string

section \<open>Thread keys\<close>

text \<open>\<^verbatim>\<open>Array.prototype.join\<close>.\<close>

fun join :: "string \<Rightarrow> string list \<Rightarrow> string" where
  "join sep [] = []"
| "join sep [x] = x"
| "join sep (x # y # ys) = x @ sep @ join sep (y # ys)"

text \<open>
  \<^verbatim>\<open>[sender, recipient].sort().join('-')\<close> of \<^verbatim>\<open>POST /api/messages\<close>: the default sort is
  stable and orders strings by code unit.
\<close>

definition thread_key :: "user_id \<Rightarrow> user_id \<Rightarrow> string" where
  "thread_key a b = join ''-'' (sort [a, b])"

section \<open>The socket layer\<close>

text \<open>
  Delivery of one event to a set of sockets: each target's stream of received events grows by
  that event, every other stream is untouched.
\<close>

definition push :: "socket_id set \<Rightarrow> event \<Rightarrow> server \<Rightarrow> server" where
  "push targets ev s =
     s\<lparr>inbox := (\<lambda>c. if c \<in> targets then inbox s c @ [ev] else inbox s c)\<rparr>"

text \<open>The room name \<^verbatim>\<open>`user-${userId}`\<close>.\<close>

definition user_room :: "user_id \<Rightarrow> string" where
  "user_room u = ''user-'' @ u"

text \<open>\<^verbatim>\<open>socket.emit\<close>: to that socket only.\<close>

definition socket_emit :: "socket_id \<Rightarrow> event \<Rightarrow> server \<Rightarrow> server" where
  "socket_emit sock ev s = push {sock} ev s"

text \<open>\<^verbatim>\<open>socket.to(room).emit\<close>: to every socket of the room except the emitting one.\<close>

definition socket_to_emit :: "socket_id \<Rightarrow> string \<Rightarrow> event \<Rightarrow> server \<Rightarrow> server" where
  "socket_to_emit sock room ev s = push (rooms s room - {sock}) ev s"

text \<open>\<^verbatim>\<open>io.emit\<close>: to every connected socket.\<close>

definition io_emit :: "event \<Rightarrow> server \<Rightarrow> server" where
  "io_emit ev s = push (connected s) ev s"

text \<open>\<^verbatim>\<open>io.to(room).emit\<close>: to every socket of the room.\<close>

definition io_to_emit :: "string \<Rightarrow> event \<Rightarrow> server \<Rightarrow> server" where
  "io_to_emit room ev s = push (rooms s room) ev s"

text \<open>\<^verbatim>\<open>io.on('connection', ...)\<close>.\<close>

definition on_connection :: "socket_id \<Rightarrow> server \<Rightarrow> server" where
  "on_connection sock s = s\<lparr>connected := insert sock (connected s)\<rparr>"

text \<open>\<^verbatim>\<open>socket.on('join-user', ...)\<close>: \<^verbatim>\<open>socket.join\<close> adds the room, it leaves no other.\<close>

definition join_user :: "socket_id \<Rightarrow> user_id \<Rightarrow> server \<Rightarrow> server" where
  "join_user sock userId s =
     s\<lparr>rooms := (rooms s)(user_room userId := insert sock (rooms s (user_room userId)))\<rparr>"

text \<open>
  \<^verbatim>\<open>socket.on('disconnect', ...)\<close>: the handler only logs; the socket library drops the
  socket from the server and from every room.
\<close>

definition on_disconnect :: "socket_id \<Rightarrow> server \<Rightarrow> server" where
  "on_disconnect sock s =
     s\<lparr>connected := connected s - {sock}, rooms := (\<lambda>r. rooms s r - {sock})\<rparr>"

section \<open>Chat\<close>

text \<open>The object a client sends with \<^verbatim>\<open>send-message\<close>; \<^verbatim>\<open>type\<close> may be missing.\<close>

record message_data =
  md_threadId :: string
  md_sender :: user_id
  md_recipient :: user_id
  md_content :: string
  md_type :: "string option"

text \<open>\<^verbatim>\<open>messageData.type || 'text'\<close>: a missing or empty type becomes \<^verbatim>\<open>'text'\<close>.\<close>

definition type_or_text :: "string option \<Rightarrow> string" where
  "type_or_text t = (case t of None \<Rightarrow> ''text'' | Some x \<Rightarrow> if x = [] then ''text'' else x)"

text \<open>The payload of \<^verbatim>\<open>new-message\<close> as the socket handler builds it.\<close>

definition new_message_payload :: "message \<Rightarrow> payload" where
  "new_message_payload m =
     [(''id'', JId (mid m)), (''threadId'', JString (threadId m)),
      (''sender'', JString (sender m)), (''content'', JString (content m)),
      (''type'', JString (mtype m)), (''createdAt'', JDate (createdAt m))]"

definition message_sent_payload :: "message \<Rightarrow> payload" where
  "message_sent_payload m = [(''id'', JId (mid m)), (''status'', JString ''sent'')]"

definition message_error_payload :: payload where
  "message_error_payload = [(''error'', JString ''Failed to send message'')]"

text \<open>\<^verbatim>\<open>Message.create\<close> once the database has accepted the document.\<close>

definition store_message :: "message \<Rightarrow> server \<Rightarrow> server" where
  "store_message m s = s\<lparr>messages := messages s @ [m], next_id := Suc (next_id s)\<rparr>"

text \<open>
  \<^verbatim>\<open>socket.on('send-message', ...)\<close>. The thread id stored is the one the client sent.
  Whatever \<^verbatim>\<open>Message.create\<close> throws, the \<^verbatim>\<open>catch\<close> emits the same \<^verbatim>\<open>message-error\<close>.
\<close>

definition send_message ::
  "faults \<Rightarrow> nat \<Rightarrow> socket_id \<Rightarrow> message_data \<Rightarrow> server \<Rightarrow> server" where
  "send_message fs now sock md s =
     (case fault fs 0 of
        Some e \<Rightarrow> socket_emit sock (''message-error'', message_error_payload) s
      | None \<Rightarrow>
          let m = \<lparr>mid = next_id s, threadId = md_threadId md, sender = md_sender md,
                   recipient = md_recipient md, content = md_content md,
                   mtype = type_or_text (md_type md), status = ''sent'', createdAt = now\<rparr>;
              s1 = store_message m s;
              s2 = socket_to_emit sock (user_room (md_recipient md))
                     (''new-message'', new_message_payload m) s1
          in socket_emit sock (''message-sent'', message_sent_payload m) s2)"

text \<open>The typing events carry a recipient; the sender field is whatever the client put there.\<close>

record typing_data =
  td_sender :: "string option"
  td_recipient :: user_id

definition user_typing_payload :: "typing_data \<Rightarrow> bool \<Rightarrow> payload" where
  "user_typing_payload d b =
     [(''sender'', (case td_sender d of None \<Rightarrow> JUndefined | Some x \<Rightarrow> JString x)),
      (''isTyping'', JBool b)]"

definition typing_start :: "socket_id \<Rightarrow> typing_data \<Rightarrow> server \<Rightarrow> server" where
  "typing_start sock d s =
     socket_to_emit sock (user_room (td_recipient d)) (''user-typing'', user_typing_payload d True) s"

definition typing_stop :: "socket_id \<Rightarrow> typing_data \<Rightarrow> server \<Rightarrow> server" where
  "typing_stop sock d s =
     socket_to_emit sock (user_room (td_recipient d)) (''user-typing'', user_typing_payload d False) s"

text \<open>The body of \<^verbatim>\<open>POST /api/messages\<close>; \<^verbatim>\<open>type\<close> defaults to \<^verbatim>\<open>'text'\<close> when missing.\<close>

record post_message_body =
  pm_recipient :: user_id
  pm_content :: string
  pm_type :: "string option"

text \<open>The payload of \<^verbatim>\<open>new-message\<close> as the route builds it: it adds the recipient.\<close>

definition broadcast_message_payload :: "message \<Rightarrow> payload" where
  "broadcast_message_payload m =
     [(''id'', JId (mid m)), (''threadId'', JString (threadId m)),
      (''sender'', JString (sender m)), (''recipient'', JString (recipient m)),
      (''content'', JString (content m)), (''type'', JString (mtype m)),
      (''createdAt'', JDate (createdAt m))]"

text \<open>
  \<^verbatim>\<open>app.post('/api/messages', auth, ...)\<close>: the sender is the authenticated user, the thread
  id is computed, and the event goes out with \<^verbatim>\<open>io.emit\<close>.
\<close>

definition post_message ::
  "faults \<Rightarrow> nat \<Rightarrow> user_id \<Rightarrow> post_message_body \<Rightarrow> server \<Rightarrow> message reply \<times> server" where
  "post_message fs now userId body s =
     (case fault fs 0 of
        Some e \<Rightarrow> (Failure 500 (error_message e), s)
      | None \<Rightarrow>
          let m = \<lparr>mid = next_id s, threadId = thread_key userId (pm_recipient body),
                   sender = userId, recipient = pm_recipient body, content = pm_content body,
                   mtype = (case pm_type body of None \<Rightarrow> ''text'' | Some x \<Rightarrow> x),
                   status = ''sent'', createdAt = now\<rparr>;
              s1 = store_message m s;
              s2 = io_emit (''new-message'', broadcast_message_payload m) s1
          in (Success m, s2))"

text \<open>
  \<^verbatim>\<open>app.get('/api/messages/:partnerId', auth, ...)\<close>: the conversation in creation order, as
  found before the partner's \<^verbatim>\<open>sent\<close> messages are marked \<^verbatim>\<open>read\<close>.
\<close>

definition in_conversation :: "user_id \<Rightarrow> user_id \<Rightarrow> message \<Rightarrow> bool" where
  "in_conversation userId partnerId m \<longleftrightarrow>
     (sender m = userId \<and> recipient m = partnerId) \<or>
     (sender m = partnerId \<and> recipient m = userId)"

definition mark_conversation_read :: "user_id \<Rightarrow> user_id \<Rightarrow> message \<Rightarrow> message" where
  "mark_conversation_read userId partnerId m =
     (if sender m = partnerId \<and> recipient m = userId \<and> status m = ''sent''
      then m\<lparr>status := ''read''\<rparr> else m)"

definition get_messages ::
  "faults \<Rightarrow> user_id \<Rightarrow> user_id \<Rightarrow> server \<Rightarrow> message list reply \<times> server" where
  "get_messages fs userId partnerId s =
     (case fault fs 0 of
        Some e \<Rightarrow> (Failure 500 (error_message e), s)
      | None \<Rightarrow>
          let found = sort_key createdAt (filter (in_conversation userId partnerId) (messages s))
          in (case fault fs 1 of
                Some e \<Rightarrow> (Failure 500 (error_message e), s)
              | None \<Rightarrow>
                  (Success found,
                   s\<lparr>messages := map (mark_conversation_read userId partnerId) (messages s)\<rparr>)))"

section \<open>Notifications\<close>

text \<open>The \<^verbatim>\<open>enum\<close> of the schema's required \<^verbatim>\<open>type\<close> path.\<close>

definition notification_types :: "string list" where
  "notification_types =
     [''message'', ''match_request'', ''match_accepted'', ''session_scheduled'',
      ''session_reminder'', ''review_received'']"

definition new_notification_payload :: "notification \<Rightarrow> payload" where
  "new_notification_payload n =
     [(''id'', JId (nid n)), (''type'', JString (ntype n)), (''title'', JString (title n)),
      (''message'', JString (nmessage n)), (''data'', JObject (ndata n)),
      (''createdAt'', JDate (ncreatedAt n))]"

text \<open>
  \<^verbatim>\<open>NotificationService.createNotification\<close>: the schema validates the type before anything
  is written; the \<^verbatim>\<open>catch\<close> logs and rethrows, so an error is the result and nothing is
  emitted.
\<close>

definition createNotification ::
  "faults \<Rightarrow> nat \<Rightarrow> user_id \<Rightarrow> string \<Rightarrow> string \<Rightarrow> string \<Rightarrow> payload \<Rightarrow> server
     \<Rightarrow> (db_error + notification) \<times> server" where
  "createNotification fs now userId type ttl msg data s =
     (if type \<notin> set notification_types
      then (Inl (ValidationError ''Notification validation failed: type''), s)
      else (case fault fs 0 of
              Some e \<Rightarrow> (Inl e, s)
            | None \<Rightarrow>
                let n = \<lparr>nid = next_id s, nuserId = userId, ntype = type, title = ttl,
                         nmessage = msg, ndata = data, nread = False, ncreatedAt = now\<rparr>;
                    s1 = s\<lparr>notifications := notifications s @ [n], next_id := Suc (next_id s)\<rparr>;
                    s2 = io_to_emit (user_room userId)
                           (''new-notification'', new_notification_payload n) s1
                in (Inr n, s2)))"

text \<open>
  \<^verbatim>\<open>app.get('/api/notifications', auth, ...)\<close>: newest first, \<^verbatim>\<open>skip\<close> then \<^verbatim>\<open>limit\<close> (a limit
  of 0 is no limit for the database); \<^verbatim>\<open>limit\<close> defaults to 50 and \<^verbatim>\<open>offset\<close> to 0.
  Documents with equal timestamps keep their insertion order here; the database leaves the
  order among them open.
\<close>

definition page :: "nat \<Rightarrow> nat \<Rightarrow> 'a list \<Rightarrow> 'a list" where
  "page l k xs = (if l = 0 then drop k xs else take l (drop k xs))"

definition get_notifications ::
  "faults \<Rightarrow> user_id \<Rightarrow> nat option \<Rightarrow> nat option \<Rightarrow> server
     \<Rightarrow> (notification list \<times> nat) reply \<times> server" where
  "get_notifications fs userId limit offset s =
     (case fault fs 0 of
        Some e \<Rightarrow> (Failure 500 (error_message e), s)
      | None \<Rightarrow>
          let found = page (case limit of None \<Rightarrow> 50 | Some l \<Rightarrow> l)
                           (case offset of None \<Rightarrow> 0 | Some k \<Rightarrow> k)
                        (sort_key (\<lambda>n. - int (ncreatedAt n))
                           (filter (\<lambda>n. nuserId n = userId) (notifications s)))
          in (case fault fs 1 of
                Some e \<Rightarrow> (Failure 500 (error_message e), s)
              | None \<Rightarrow>
                  (Success (found,
                     length (filter (\<lambda>n. nuserId n = userId \<and> \<not> nread n) (notifications s))),
                   s)))"

text \<open>\<^verbatim>\<open>findOneAndUpdate(filter, update, { new: true })\<close>: the first match, updated.\<close>

fun find_one_and_update :: "('a \<Rightarrow> bool) \<Rightarrow> ('a \<Rightarrow> 'a) \<Rightarrow> 'a list \<Rightarrow> 'a option \<times> 'a list" where
  "find_one_and_update P u [] = (None, [])"
| "find_one_and_update P u (x # xs) =
     (if P x then (Some (u x), u x # xs)
      else (case find_one_and_update P u xs of (r, ys) \<Rightarrow> (r, x # ys)))"

text \<open>\<^verbatim>\<open>findOneAndDelete(filter)\<close>: the first match, removed.\<close>

fun find_one_and_delete :: "('a \<Rightarrow> bool) \<Rightarrow> 'a list \<Rightarrow> 'a option \<times> 'a list" where
  "find_one_and_delete P [] = (None, [])"
| "find_one_and_delete P (x # xs) =
     (if P x then (Some x, xs)
      else (case find_one_and_delete P xs of (r, ys) \<Rightarrow> (r, x # ys)))"

text \<open>\<^verbatim>\<open>updateMany(filter, update)\<close>.\<close>

definition update_many :: "('a \<Rightarrow> bool) \<Rightarrow> ('a \<Rightarrow> 'a) \<Rightarrow> 'a list \<Rightarrow> 'a list" where
  "update_many P u xs = map (\<lambda>x. if P x then u x else x) xs"

text \<open>\<^verbatim>\<open>app.put('/api/notifications/:id/read', auth, ...)\<close>.\<close>

definition mark_read ::
  "faults \<Rightarrow> doc_id \<Rightarrow> user_id \<Rightarrow> server \<Rightarrow> notification reply \<times> server" where
  "mark_read fs notificationId userId s =
     (case fault fs 0 of
        Some e \<Rightarrow> (Failure 500 (error_message e), s)
      | None \<Rightarrow>
          (case find_one_and_update (\<lambda>n. nid n = notificationId \<and> nuserId n = userId)
                  (\<lambda>n. n\<lparr>nread := True\<rparr>) (notifications s) of
             (None, ns) \<Rightarrow> (Failure 404 ''Notification not found'', s)
           | (Some n, ns) \<Rightarrow> (Success n, s\<lparr>notifications := ns\<rparr>)))"

text \<open>\<^verbatim>\<open>app.put('/api/notifications/read-all', auth, ...)\<close>.\<close>

definition mark_all_read :: "faults \<Rightarrow> user_id \<Rightarrow> server \<Rightarrow> string reply \<times> server" where
  "mark_all_read fs userId s =
     (case fault fs 0 of
        Some e \<Rightarrow> (Failure 500 (error_message e), s)
      | None \<Rightarrow>
          (Success ''All notifications marked as read'',
           s\<lparr>notifications :=
                update_many (\<lambda>n. nuserId n = userId \<and> nread n = False)
                  (\<lambda>n. n\<lparr>nread := True\<rparr>) (notifications s)\<rparr>))"

text \<open>\<^verbatim>\<open>app.delete('/api/notifications/:id', auth, ...)\<close>.\<close>

definition delete_notification ::
  "faults \<Rightarrow> doc_id \<Rightarrow> user_id \<Rightarrow> server \<Rightarrow> string reply \<times> server" where
  "delete_notification fs notificationId userId s =
     (case fault fs 0 of
        Some e \<Rightarrow> (Failure 500 (error_message e), s)
      | None \<Rightarrow>
          (case find_one_and_delete (\<lambda>n. nid n = notificationId \<and> nuserId n = userId)
                  (notifications s) of
             (None, ns) \<Rightarrow> (Failure 404 ''Notification not found'', s)
           | (Some n, ns) \<Rightarrow> (Success ''Notification deleted'', s\<lparr>notifications := ns\<rparr>)))"

section \<open>Reviews\<close>

text \<open>\<^verbatim>\<open>Review.findOne\<close>, \<^verbatim>\<open>User.findById\<close>: the first match.\<close>

definition find_one :: "('a \<Rightarrow> bool) \<Rightarrow> 'a list \<Rightarrow> 'a option" where
  "find_one P xs = (case filter P xs of [] \<Rightarrow> None | x # _ \<Rightarrow> Some x)"

text \<open>\<^verbatim>\<open>reviews.reduce((sum, r) => sum + r.rating, 0) / reviews.length\<close>, over the reals.\<close>

definition average_rating :: "review list \<Rightarrow> real" where
  "average_rating rs = foldl (\<lambda>sum r. sum + rating r) 0 rs / real (length rs)"

text \<open>
  \<^verbatim>\<open>User.findById\<close> and \<^verbatim>\<open>User.findByIdAndUpdate\<close> cast the string they are given to an
  ObjectId before the database is asked: 24 hexadecimal digits, in either case, denote the
  id whose string form is the lower-case spelling; another string is refused with a
  \<^verbatim>\<open>CastError\<close>. (A string of 12 bytes, which some versions of the driver also take for an
  id, is refused here.)
\<close>

definition hex_digit :: "char \<Rightarrow> bool" where
  "hex_digit c \<longleftrightarrow> c \<in> set ''0123456789abcdefABCDEF''"

definition lower_hex :: "char \<Rightarrow> char" where
  "lower_hex c =
     (if c = CHR ''A'' then CHR ''a'' else if c = CHR ''B'' then CHR ''b''
      else if c = CHR ''C'' then CHR ''c'' else if c = CHR ''D'' then CHR ''d''
      else if c = CHR ''E'' then CHR ''e'' else if c = CHR ''F'' then CHR ''f'' else c)"

definition cast_object_id :: "string \<Rightarrow> user_id option" where
  "cast_object_id x =
     (if length x = 24 \<and> list_all hex_digit x then Some (map lower_hex x) else None)"

text \<open>
  \<^verbatim>\<open>app.post('/api/users/:userId/reviews', auth, ...)\<close>. The target is the string of the URL,
  the reviewer the string of the token. The two guards and the \<^verbatim>\<open>Review\<close> collection
  (\<^verbatim>\<open>userId\<close> and \<^verbatim>\<open>reviewerId\<close> are \<^verbatim>\<open>String\<close> paths) compare these strings as they are;
  the two calls on \<^verbatim>\<open>User\<close> cast them. The schema bounds the rating by 1 and 5, which
  \<^verbatim>\<open>Review.create\<close> checks before it writes. Five database calls, in this order:
  \<^verbatim>\<open>Review.findOne\<close>, \<^verbatim>\<open>User.findById\<close>, \<^verbatim>\<open>Review.create\<close>, \<^verbatim>\<open>Review.find\<close>,
  \<^verbatim>\<open>User.findByIdAndUpdate\<close>.
\<close>

definition post_review ::
  "faults \<Rightarrow> nat \<Rightarrow> user_id \<Rightarrow> string \<Rightarrow> real \<Rightarrow> string \<Rightarrow> server \<Rightarrow> review reply \<times> server" where
  "post_review fs now reviewer target rt cm s =
     (if target = reviewer then (Failure 400 ''Cannot review yourself'', s)
      else (case fault fs 0 of
        Some e \<Rightarrow> (Failure 500 (error_message e), s)
      | None \<Rightarrow>
      (case find_one (\<lambda>r. ruserId r = target \<and> reviewerId r = reviewer) (reviews s) of
        Some existing \<Rightarrow> (Failure 400 ''You have already reviewed this user'', s)
      | None \<Rightarrow>
      (case cast_object_id reviewer of
        None \<Rightarrow> (Failure 500 ''Cast to ObjectId failed'', s)
      | Some reviewer_oid \<Rightarrow>
      (case fault fs 1 of
        Some e \<Rightarrow> (Failure 500 (error_message e), s)
      | None \<Rightarrow>
      (case find_one (\<lambda>u. uid u = reviewer_oid) (users s) of
        None \<Rightarrow> (Failure 404 ''Reviewer not found'', s)
      | Some rv \<Rightarrow>
      (if rt < 1 \<or> 5 < rt
       then (Failure 500 (error_message (ValidationError ''Review validation failed: rating'')), s)
       else (case fault fs 2 of
        Some e \<Rightarrow> (Failure 500 (error_message e), s)
      | None \<Rightarrow>
      (let r = \<lparr>rid = next_id s, ruserId = target, reviewerId = reviewer,
                reviewerName = firstName rv @ '' '' @ lastName rv, rating = rt, comment = cm,
                rcreatedAt = now\<rparr>;
           s1 = s\<lparr>reviews := reviews s @ [r], next_id := Suc (next_id s)\<rparr>
       in (case fault fs 3 of
        Some e \<Rightarrow> (Failure 500 (error_message e), s1)
      | None \<Rightarrow>
      (let averageRating = average_rating (filter (\<lambda>x. ruserId x = target) (reviews s1))
       in (case cast_object_id target of
        None \<Rightarrow> (Failure 500 ''Cast to ObjectId failed'', s1)
      | Some target_oid \<Rightarrow>
      (case fault fs 4 of
        Some e \<Rightarrow> (Failure 500 (error_message e), s1)
      | None \<Rightarrow>
          (Success r,
           s1\<lparr>users := snd (find_one_and_update (\<lambda>u. uid u = target_oid)
                              (\<lambda>u. u\<lparr>urating := averageRating\<rparr>) (users s1))\<rparr>))))))))))))))"

section \<open>Runs of the server\<close>

text \<open>
  One request or socket event, with what the environment contributes to it: the clock and the
  outcome of the database calls.
\<close>

datatype request =
    Connection socket_id
  | JoinUser socket_id user_id
  | Disconnect socket_id
  | SendMessage faults nat socket_id message_data
  | TypingStart socket_id typing_data
  | TypingStop socket_id typing_data
  | PostMessage faults nat user_id post_message_body
  | GetMessages faults user_id user_id
  | CreateNotification faults nat user_id string string string payload
  | GetNotifications faults user_id "nat option" "nat option"
  | MarkRead faults doc_id user_id
  | MarkAllRead faults user_id
  | DeleteNotification faults doc_id user_id
  | PostReview faults nat user_id user_id real string

fun step :: "server \<Rightarrow> request \<Rightarrow> server" where
  "step s (Connection c) = on_connection c s"
| "step s (JoinUser c u) = join_user c u s"
| "step s (Disconnect c) = on_disconnect c s"
| "step s (SendMessage fs now c md) = send_message fs now c md s"
| "step s (TypingStart c d) = typing_start c d s"
| "step s (TypingStop c d) = typing_stop c d s"
| "step s (PostMessage fs now u b) = snd (post_message fs now u b s)"
| "step s (GetMessages fs u p) = snd (get_messages fs u p s)"
| "step s (CreateNotification fs now u ty ttl msg d) = snd (createNotification fs now u ty ttl msg d s)"
| "step s (GetNotifications fs u l k) = snd (get_notifications fs u l k s)"
| "step s (MarkRead fs i u) = snd (mark_read fs i u s)"
| "step s (MarkAllRead fs u) = snd (mark_all_read fs u s)"
| "step s (DeleteNotification fs i u) = snd (delete_notification fs i u s)"
| "step s (PostReview fs now rv u rt cm) = snd (post_review fs now rv u rt cm s)"

definition run :: "server \<Rightarrow> request list \<Rightarrow> server" where
  "run s reqs = foldl step s reqs"

section \<open>Observations and scenarios\<close>

text \<open>What was pushed to connection \<open>c\<close> between state \<open>s\<close> and the later state \<open>s'\<close>.\<close>

definition delivered :: "server \<Rightarrow> server \<Rightarrow> socket_id \<Rightarrow> event list" where
  "delivered s s' c = drop (length (inbox s c)) (inbox s' c)"

text \<open>
  Users A, B and C, each with one open connection (1, 2 and 3) that has joined its user's
  room; all collections are empty.
\<close>

definition three_users :: server where
  "three_users = run init_server
     [Connection 1, JoinUser 1 ''A'', Connection 2, JoinUser 2 ''B'',
      Connection 3, JoinUser 3 ''C'']"

text \<open>A sends the text \<^verbatim>\<open>hello\<close> to B: as a socket event and as a request body.\<close>

definition hello_data :: message_data where
  "hello_data = \<lparr>md_threadId = ''A-B'', md_sender = ''A'', md_recipient = ''B'',
      md_content = ''hello'', md_type = Some ''text''\<rparr>"

definition hello_body :: post_message_body where
  "hello_body = \<lparr>pm_recipient = ''B'', pm_content = ''hello'', pm_type = Some ''text''\<rparr>"

text \<open>The same socket event with the thread id of another conversation.\<close>

definition foreign_thread_data :: message_data where
  "foreign_thread_data = \<lparr>md_threadId = ''A-C'', md_sender = ''A'', md_recipient = ''B'',
      md_content = ''hello'', md_type = None\<rparr>"

text \<open>
  Document ids of notifications are unique and below the counter: what the database
  guarantees for \<^verbatim>\<open>_id\<close>.
\<close>

definition fresh_ids :: "server \<Rightarrow> bool" where
  "fresh_ids s \<longleftrightarrow>
     distinct (map nid (notifications s)) \<and> (\<forall>n \<in> set (notifications s). nid n < next_id s)"

text \<open>Every notification with id \<open>i\<close> that exists is read, and \<open>i\<close> has been handed out.\<close>

definition read_kept :: "doc_id \<Rightarrow> server \<Rightarrow> bool" where
  "read_kept i s \<longleftrightarrow>
     fresh_ids s \<and> i < next_id s \<and> (\<forall>n \<in> set (notifications s). nid n = i \<longrightarrow> nread n)"

text \<open>B is told that A accepted the match; then B marks the notification read.\<close>

definition match_notice :: request where
  "match_notice = CreateNotification [] 5 ''B'' ''match_accepted'' ''Match Accepted!''
     ''A accepted your match request'' [(''type'', JString ''match_accepted'')]"

definition read_once :: server where
  "read_once = run three_users [match_notice, MarkRead [] 0 ''B'']"

text \<open>The notification of that run, as stored after it was marked read.\<close>

definition the_notice :: notification where
  "the_notice = \<lparr>nid = 0, nuserId = ''B'', ntype = ''match_accepted'', title = ''Match Accepted!'',
     nmessage = ''A accepted your match request'',
     ndata = [(''type'', JString ''match_accepted'')], nread = True, ncreatedAt = 5\<rparr>"

text \<open>Two registered users, Ada and Bob; then Ada reviews Bob.\<close>

definition two_profiles :: server where
  "two_profiles = init_server\<lparr>users :=
     [\<lparr>uid = ''aaaaaaaaaaaaaaaaaaaaaaa1'', firstName = ''Ada'', lastName = ''Low'', urating = 0\<rparr>,
      \<lparr>uid = ''bbbbbbbbbbbbbbbbbbbbbbb2'', firstName = ''Bob'', lastName = ''Ray'', urating = 0\<rparr>]\<rparr>"

definition reviewed :: server where
  "reviewed = run two_profiles
     [PostReview [] 9 ''aaaaaaaaaaaaaaaaaaaaaaa1'' ''bbbbbbbbbbbbbbbbbbbbbbb2'' 4 ''great'']"

text \<open>A writes to D, who has no open connection.\<close>

definition offline_data :: message_data where
  "offline_data = \<lparr>md_threadId = ''A-D'', md_sender = ''A'', md_recipient = ''D'',
      md_content = ''hello'', md_type = None\<rparr>"

definition offline_body :: post_message_body where
  "offline_body = \<lparr>pm_recipient = ''D'', pm_content = ''hello'', pm_type = None\<rparr>"

section \<open>Thread key properties\<close>

lemma thread_key_cases:
  "thread_key a b = (if a \<le> b then a @ ''-'' @ b else b @ ''-'' @ a)"
  by (simp add: thread_key_def)

text \<open>
  C4. For every pair of user identities \<open>a\<close>, \<open>b\<close> the thread key derived from \<open>(a, b)\<close> is
  the thread key derived from \<open>(b, a)\<close>.
\<close>

theorem thread_key_commute: "thread_key a b = thread_key b a"
  by (auto simp add: thread_key_cases)

section \<open>Facts about the socket layer\<close>

lemma inbox_push: "inbox (push T ev s) c = (if c \<in> T then inbox s c @ [ev] else inbox s c)"
  by (simp add: push_def)

lemma push_fields:
  "connected (push T ev s) = connected s" "rooms (push T ev s) = rooms s"
  "messages (push T ev s) = messages s" "notifications (push T ev s) = notifications s"
  "reviews (push T ev s) = reviews s" "users (push T ev s) = users s"
  "next_id (push T ev s) = next_id s"
  by (simp_all add: push_def)

lemma delivered_push: "delivered s (push T ev s) c = (if c \<in> T then [ev] else [])"
  by (simp add: delivered_def inbox_push)

lemma three_users_simps:
  "connected three_users = {1, 2, 3}"
  "rooms three_users (user_room ''A'') = {1}"
  "rooms three_users (user_room ''B'') = {2}"
  "rooms three_users (user_room ''C'') = {3}"
  "inbox three_users c = []"
  "messages three_users = []"
  "notifications three_users = []"
  "next_id three_users = 0"
  by (auto simp add: three_users_def run_def init_server_def on_connection_def join_user_def
      user_room_def)

lemma send_message_stored:
  "fault fs 0 = None \<Longrightarrow>
   messages (send_message fs now sock md s) =
     messages s @ [\<lparr>mid = next_id s, threadId = md_threadId md, sender = md_sender md,
                   recipient = md_recipient md, content = md_content md,
                   mtype = type_or_text (md_type md), status = ''sent'', createdAt = now\<rparr>]"
  by (simp add: send_message_def Let_def socket_emit_def socket_to_emit_def push_fields
      store_message_def)

lemma send_message_delivered:
  "fault fs 0 = None \<Longrightarrow>
   delivered s (send_message fs now sock md s) c =
    (if c = sock
     then [(''message-sent'', message_sent_payload (last (messages (send_message fs now sock md s))))]
     else if c \<in> rooms s (user_room (md_recipient md))
     then [(''new-message'', new_message_payload (last (messages (send_message fs now sock md s))))]
     else [])"
  by (simp add: send_message_stored)
     (simp add: send_message_def Let_def socket_emit_def socket_to_emit_def inbox_push
      push_fields store_message_def delivered_def)

lemma send_message_failed:
  "fault fs 0 = Some e \<Longrightarrow>
   send_message fs now sock md s = push {sock} (''message-error'', message_error_payload) s"
  by (simp add: send_message_def socket_emit_def)

lemma post_message_stored:
  "fault fs 0 = None \<Longrightarrow>
   messages (snd (post_message fs now u body s)) =
     messages s @ [\<lparr>mid = next_id s, threadId = thread_key u (pm_recipient body),
                   sender = u, recipient = pm_recipient body, content = pm_content body,
                   mtype = (case pm_type body of None \<Rightarrow> ''text'' | Some x \<Rightarrow> x),
                   status = ''sent'', createdAt = now\<rparr>]"
  by (simp add: post_message_def Let_def io_emit_def push_fields store_message_def)

lemma post_message_reply:
  "fault fs 0 = None \<Longrightarrow>
   fst (post_message fs now u body s) = Success (last (messages (snd (post_message fs now u body s))))"
  by (simp add: post_message_stored) (simp add: post_message_def Let_def)

lemma post_message_delivered:
  "fault fs 0 = None \<Longrightarrow>
   delivered s (snd (post_message fs now u body s)) c =
    (if c \<in> connected s
     then [(''new-message'', broadcast_message_payload (last (messages (snd (post_message fs now u body s)))))]
     else [])"
  by (simp add: post_message_stored)
     (simp add: post_message_def Let_def io_emit_def inbox_push push_fields store_message_def
      delivered_def)

section \<open>Dispatch of chat messages\<close>

text \<open>
  C1, as the code has it. When the message is persisted:
  on the socket path (\<^verbatim>\<open>send-message\<close>) every connection in the recipient's room other than
  the originating one receives exactly one \<^verbatim>\<open>new-message\<close>, the originating connection
  receives exactly one \<^verbatim>\<open>message-sent\<close> and nothing else, and no other connection
  receives anything;
  on the route \<^verbatim>\<open>POST /api/messages\<close> every live connection of the recipient receives exactly
  one \<^verbatim>\<open>new-message\<close>, no connection receives a \<^verbatim>\<open>message-sent\<close> event, and the
  acknowledgment is the HTTP reply carrying the stored message.
\<close>

theorem chat_dispatch_fanout:
  assumes "fault fs 0 = None"
  shows "(let s' = send_message fs now sock md s; m = last (messages s') in
            messages s' = messages s @ [m] \<and>
            (\<forall>c. delivered s s' c =
               (if c = sock then [(''message-sent'', message_sent_payload m)]
                else if c \<in> rooms s (user_room (md_recipient md))
                then [(''new-message'', new_message_payload m)]
                else []))) \<and>
         (let s' = snd (post_message fs now u body s); m = last (messages s') in
            messages s' = messages s @ [m] \<and>
            fst (post_message fs now u body s) = Success m \<and>
            (\<forall>c \<in> rooms s (user_room (pm_recipient body)) \<inter> connected s.
               delivered s s' c = [(''new-message'', broadcast_message_payload m)]) \<and>
            (\<forall>c p. (''message-sent'', p) \<notin> set (delivered s s' c)))"
proof -
  have a: "messages (send_message fs now sock md s) =
             messages s @ [last (messages (send_message fs now sock md s))]"
    using assms by (simp add: send_message_stored)
  have b: "messages (snd (post_message fs now u body s)) =
             messages s @ [last (messages (snd (post_message fs now u body s)))]"
    using assms by (simp add: post_message_stored)
  show ?thesis
    unfolding Let_def
    using a b assms
    by (simp add: send_message_delivered post_message_delivered post_message_reply)
qed


lemma fault_Nil: "fault [] k = None"
  by (simp add: fault_def)

lemma fault_Cons0: "fault (x # xs) 0 = x"
  by (simp add: fault_def)

text \<open>The statement at A sending \<^verbatim>\<open>hello\<close> to B among three connected users.\<close>

theorem chat_dispatch_fanout_witness:
  "fault [] 0 = None \<and>
   2 \<in> rooms three_users (user_room ''B'') \<inter> connected three_users \<and>
   delivered three_users (send_message [] 7 1 hello_data three_users) 2 =
     [(''new-message'',
       [(''id'', JId 0), (''threadId'', JString ''A-B''), (''sender'', JString ''A''),
        (''content'', JString ''hello''), (''type'', JString ''text''), (''createdAt'', JDate 7)])] \<and>
   delivered three_users (send_message [] 7 1 hello_data three_users) 1 =
     [(''message-sent'', [(''id'', JId 0), (''status'', JString ''sent'')])] \<and>
   delivered three_users (send_message [] 7 1 hello_data three_users) 3 = [] \<and>
   delivered three_users (snd (post_message [] 7 ''A'' hello_body three_users)) 2 =
     [(''new-message'',
       [(''id'', JId 0), (''threadId'', JString ''A-B''), (''sender'', JString ''A''),
        (''recipient'', JString ''B''), (''content'', JString ''hello''),
        (''type'', JString ''text''), (''createdAt'', JDate 7)])]"
proof -
  have h: "fault [] 0 = None"
    by (rule fault_Nil)
  have m1: "last (messages (send_message [] 7 1 hello_data three_users)) =
      \<lparr>mid = 0, threadId = ''A-B'', sender = ''A'', recipient = ''B'', content = ''hello'',
       mtype = ''text'', status = ''sent'', createdAt = 7\<rparr>"
    by (simp add: send_message_stored [OF h] three_users_simps hello_data_def type_or_text_def)
  have m2: "last (messages (snd (post_message [] 7 ''A'' hello_body three_users))) =
      \<lparr>mid = 0, threadId = ''A-B'', sender = ''A'', recipient = ''B'', content = ''hello'',
       mtype = ''text'', status = ''sent'', createdAt = 7\<rparr>"
    by (simp add: post_message_stored [OF h] three_users_simps hello_body_def thread_key_def)
  have r: "md_recipient hello_data = ''B''" "pm_recipient hello_body = ''B''"
    by (simp_all add: hello_data_def hello_body_def)
  show ?thesis
    using chat_dispatch_fanout [OF h, of 7 1 hello_data three_users "''A''" hello_body]
    unfolding Let_def m1 m2 r
    by (simp add: three_users_simps h new_message_payload_def message_sent_payload_def
        broadcast_message_payload_def)
qed

text \<open>
  C1 as stated fails on the route: A posts a message for B, and the connection of the third
  user C receives the \<^verbatim>\<open>new-message\<close>; A's own connection receives it too, and no
  \<^verbatim>\<open>message-sent\<close>.
\<close>

theorem post_message_broadcast_counterexample:
  "rooms three_users (user_room ''A'') = {1} \<and>
   rooms three_users (user_room ''B'') = {2} \<and>
   rooms three_users (user_room ''C'') = {3} \<and>
   delivered three_users (snd (post_message [] 7 ''A'' hello_body three_users)) 3 =
     [(''new-message'',
       [(''id'', JId 0), (''threadId'', JString ''A-B''), (''sender'', JString ''A''),
        (''recipient'', JString ''B''), (''content'', JString ''hello''),
        (''type'', JString ''text''), (''createdAt'', JDate 7)])] \<and>
   delivered three_users (snd (post_message [] 7 ''A'' hello_body three_users)) 1 =
     [(''new-message'',
       [(''id'', JId 0), (''threadId'', JString ''A-B''), (''sender'', JString ''A''),
        (''recipient'', JString ''B''), (''content'', JString ''hello''),
        (''type'', JString ''text''), (''createdAt'', JDate 7)])]"
proof -
  have h: "fault [] 0 = None"
    by (rule fault_Nil)
  have m2: "last (messages (snd (post_message [] 7 ''A'' hello_body three_users))) =
      \<lparr>mid = 0, threadId = ''A-B'', sender = ''A'', recipient = ''B'', content = ''hello'',
       mtype = ''text'', status = ''sent'', createdAt = 7\<rparr>"
    by (simp add: post_message_stored [OF h] three_users_simps hello_body_def thread_key_def)
  show ?thesis
    by (simp add: post_message_delivered [OF h] m2 three_users_simps
        broadcast_message_payload_def)
qed

text \<open>
  C2, as the code has it. If persisting the message of a \<^verbatim>\<open>send-message\<close> event fails,
  nothing is stored, no connection receives a \<^verbatim>\<open>new-message\<close>, and the originating
  connection receives one \<^verbatim>\<open>message-error\<close> whose payload is the fixed text
  \<^verbatim>\<open>Failed to send message\<close> under the key \<^verbatim>\<open>error\<close>, whatever the cause.
\<close>

theorem send_message_persist_failure:
  assumes "fault fs 0 = Some e"
  shows "messages (send_message fs now sock md s) = messages s \<and>
         (\<forall>c. delivered s (send_message fs now sock md s) c =
            (if c = sock then [(''message-error'', [(''error'', JString ''Failed to send message'')])]
             else []))"
  using assms
  by (simp add: send_message_failed delivered_push push_fields message_error_payload_def)

text \<open>The statement at a lost database connection.\<close>

theorem send_message_persist_failure_witness:
  "fault [Some ConnectionLost] 0 = Some ConnectionLost \<and>
   messages (send_message [Some ConnectionLost] 7 1 hello_data three_users) = [] \<and>
   delivered three_users (send_message [Some ConnectionLost] 7 1 hello_data three_users) 1 =
     [(''message-error'', [(''error'', JString ''Failed to send message'')])] \<and>
   delivered three_users (send_message [Some ConnectionLost] 7 1 hello_data three_users) 2 = []"
proof -
  have h: "fault [Some ConnectionLost] 0 = Some ConnectionLost"
    by (rule fault_Cons0)
  show ?thesis
    using send_message_persist_failure [OF h, of 7 1 hello_data three_users]
    by (simp add: h three_users_simps)
qed

text \<open>
  C2 as stated fails: the payload of \<^verbatim>\<open>message-error\<close> has the single key \<^verbatim>\<open>error\<close> and
  is the same for a lost connection (retryable) and a duplicate key (fatal).
\<close>

theorem message_error_payload_counterexample:
  "delivered three_users (send_message [Some ConnectionLost] 7 1 hello_data three_users) 1 =
     [(''message-error'', [(''error'', JString ''Failed to send message'')])] \<and>
   delivered three_users (send_message [Some DuplicateKey] 7 1 hello_data three_users) 1 =
     [(''message-error'', [(''error'', JString ''Failed to send message'')])]"
  by (simp add: send_message_failed [OF fault_Cons0] delivered_push message_error_payload_def)


text \<open>
  C5, as the code has it. When A sends the text \<^verbatim>\<open>hello\<close> to B over the socket while B has
  one open connection, that connection receives one \<^verbatim>\<open>new-message\<close> with sender A,
  content \<^verbatim>\<open>hello\<close> and type \<^verbatim>\<open>text\<close> (and id, thread id and creation time, but no
  status); the stored message has status \<^verbatim>\<open>sent\<close>; and A's connection receives one
  \<^verbatim>\<open>message-sent\<close> with status \<^verbatim>\<open>sent\<close>.
\<close>

theorem hello_scenario_delivery:
  assumes "fault fs 0 = None"
    and "rooms s (user_room b) = {cb}" and "sock \<noteq> cb"
    and "md_sender md = a" and "md_recipient md = b"
    and "md_content md = ''hello''" and "md_type md = Some ''text''"
  shows "delivered s (send_message fs now sock md s) cb =
           [(''new-message'',
             [(''id'', JId (next_id s)), (''threadId'', JString (md_threadId md)),
              (''sender'', JString a), (''content'', JString ''hello''),
              (''type'', JString ''text''), (''createdAt'', JDate now)])] \<and>
         status (last (messages (send_message fs now sock md s))) = ''sent'' \<and>
         delivered s (send_message fs now sock md s) sock =
           [(''message-sent'', [(''id'', JId (next_id s)), (''status'', JString ''sent'')])]"
  using assms
  by (simp add: send_message_delivered send_message_stored new_message_payload_def
      message_sent_payload_def type_or_text_def)

text \<open>The scenario among three connected users.\<close>

theorem hello_scenario_delivery_witness:
  "fault [] 0 = None \<and> rooms three_users (user_room ''B'') = {2} \<and> (1::nat) \<noteq> 2 \<and>
   md_sender hello_data = ''A'' \<and> md_recipient hello_data = ''B'' \<and>
   md_content hello_data = ''hello'' \<and> md_type hello_data = Some ''text'' \<and>
   delivered three_users (send_message [] 7 1 hello_data three_users) 2 =
     [(''new-message'',
       [(''id'', JId 0), (''threadId'', JString ''A-B''), (''sender'', JString ''A''),
        (''content'', JString ''hello''), (''type'', JString ''text''), (''createdAt'', JDate 7)])] \<and>
   status (last (messages (send_message [] 7 1 hello_data three_users))) = ''sent'' \<and>
   delivered three_users (send_message [] 7 1 hello_data three_users) 1 =
     [(''message-sent'', [(''id'', JId 0), (''status'', JString ''sent'')])]"
proof -
  have h: "fault [] 0 = None"
    by (rule fault_Nil)
  have r: "rooms three_users (user_room ''B'') = {2}"
    by (rule three_users_simps)
  have d: "md_sender hello_data = ''A''" "md_recipient hello_data = ''B''"
    "md_content hello_data = ''hello''" "md_type hello_data = Some ''text''"
    "md_threadId hello_data = ''A-B''"
    by (simp_all add: hello_data_def)
  have n: "(1::nat) \<noteq> 2"
    by simp
  show ?thesis
    using hello_scenario_delivery [OF h r n d(1) d(2) d(3) d(4), of 7]
    by (simp add: h r d three_users_simps)
qed

text \<open>C5 as stated fails: the payload that B's connection receives has no \<^verbatim>\<open>status\<close> key.\<close>

theorem new_message_status_counterexample:
  "map fst (snd (hd (delivered three_users (send_message [] 7 1 hello_data three_users) 2))) =
     [''id'', ''threadId'', ''sender'', ''content'', ''type'', ''createdAt''] \<and>
   map_of (snd (hd (delivered three_users (send_message [] 7 1 hello_data three_users) 2)))
     ''status'' = None"
  by (simp add: send_message_delivered [OF fault_Nil] three_users_simps hello_data_def
      new_message_payload_def)

section \<open>Typing indicators\<close>

lemma typing_unfold:
  "typing_start sock d s =
     push (rooms s (user_room (td_recipient d)) - {sock}) (''user-typing'', user_typing_payload d True) s"
  "typing_stop sock d s =
     push (rooms s (user_room (td_recipient d)) - {sock}) (''user-typing'', user_typing_payload d False) s"
  by (simp_all add: typing_start_def typing_stop_def socket_to_emit_def)

text \<open>
  C6. A \<^verbatim>\<open>typing-start\<close> or \<^verbatim>\<open>typing-stop\<close> event leaves the message, notification and
  review collections as they were; the \<^verbatim>\<open>user-typing\<close> event goes to the connections in the
  recipient's room other than the sending connection, once each; the sending connection and
  every connection outside that room receive nothing.
\<close>

theorem typing_indicator_delivery:
  "(messages (typing_start sock d s) = messages s \<and>
    notifications (typing_start sock d s) = notifications s \<and>
    reviews (typing_start sock d s) = reviews s \<and>
    (\<forall>c. delivered s (typing_start sock d s) c =
       (if c \<in> rooms s (user_room (td_recipient d)) \<and> c \<noteq> sock
        then [(''user-typing'', user_typing_payload d True)] else []))) \<and>
   (messages (typing_stop sock d s) = messages s \<and>
    notifications (typing_stop sock d s) = notifications s \<and>
    reviews (typing_stop sock d s) = reviews s \<and>
    (\<forall>c. delivered s (typing_stop sock d s) c =
       (if c \<in> rooms s (user_room (td_recipient d)) \<and> c \<noteq> sock
        then [(''user-typing'', user_typing_payload d False)] else [])))"
  by (simp add: typing_unfold delivered_push push_fields)

text \<open>The statement at A typing to B among three connected users.\<close>

theorem typing_indicator_delivery_witness:
  "delivered three_users
     (typing_start 1 \<lparr>td_sender = Some ''A'', td_recipient = ''B''\<rparr> three_users) 2 =
     [(''user-typing'', [(''sender'', JString ''A''), (''isTyping'', JBool True)])] \<and>
   delivered three_users
     (typing_start 1 \<lparr>td_sender = Some ''A'', td_recipient = ''B''\<rparr> three_users) 1 = [] \<and>
   delivered three_users
     (typing_stop 1 \<lparr>td_sender = Some ''A'', td_recipient = ''B''\<rparr> three_users) 2 =
     [(''user-typing'', [(''sender'', JString ''A''), (''isTyping'', JBool False)])] \<and>
   delivered three_users
     (typing_stop 1 \<lparr>td_sender = Some ''A'', td_recipient = ''B''\<rparr> three_users) 3 = [] \<and>
   messages (typing_start 1 \<lparr>td_sender = Some ''A'', td_recipient = ''B''\<rparr> three_users) = []"
  using typing_indicator_delivery
    [of 1 "\<lparr>td_sender = Some ''A'', td_recipient = ''B''\<rparr>" three_users]
  by (simp add: three_users_simps user_typing_payload_def)

section \<open>Thread ids of stored messages\<close>

text \<open>
  C3 at a failing input. The socket handler stores the thread id the client sent: a
  \<^verbatim>\<open>send-message\<close> from A to B carrying the thread id \<^verbatim>\<open>A-C\<close> is stored with that id,
  while the key derived from the pair is \<^verbatim>\<open>A-B\<close>.
\<close>

theorem send_message_stores_client_thread_id:
  "messages (send_message [] 7 1 foreign_thread_data three_users) =
     [\<lparr>mid = 0, threadId = ''A-C'', sender = ''A'', recipient = ''B'', content = ''hello'',
       mtype = ''text'', status = ''sent'', createdAt = 7\<rparr>] \<and>
   thread_key ''A'' ''B'' = ''A-B''"
  by (simp add: send_message_stored [OF fault_Nil] three_users_simps foreign_thread_data_def
      type_or_text_def thread_key_def)

text \<open>The route, in contrast, stores the derived key.\<close>

lemma post_message_thread_id:
  "fault fs 0 = None \<Longrightarrow>
   threadId (last (messages (snd (post_message fs now u body s)))) =
     thread_key (sender (last (messages (snd (post_message fs now u body s)))))
       (recipient (last (messages (snd (post_message fs now u body s)))))"
  by (simp add: post_message_stored)

section \<open>Marking notifications read\<close>

lemma find_one_and_update_read:
  "distinct (map nid ns) \<Longrightarrow> n \<in> set ns \<Longrightarrow> nread n \<Longrightarrow>
   find_one_and_update (\<lambda>x. nid x = nid n \<and> nuserId x = nuserId n) (\<lambda>x. x\<lparr>nread := True\<rparr>) ns
     = (Some n, ns)"
proof (induction ns)
  case Nil
  then show ?case by simp
next
  case (Cons x xs)
  show ?case
  proof (cases "x = n")
    case True
    with Cons.prems show ?thesis by simp
  next
    case False
    with Cons.prems have "n \<in> set xs" by simp
    then have "nid n \<in> nid ` set xs" by (rule imageI)
    with Cons.prems have "nid x \<noteq> nid n" by auto
    with Cons \<open>n \<in> set xs\<close> show ?thesis by simp
  qed
qed

text \<open>
  C8. For a notification of the caller that is already read, marking it read again answers
  with success and that notification, and the server state (the notification collection
  with it) is the same as before; ids in the collection are unique and the database call
  does not throw.
\<close>

theorem mark_read_idempotent:
  assumes "fault fs 0 = None" and "distinct (map nid (notifications s))"
    and "n \<in> set (notifications s)" and "nuserId n = u" and "nread n"
  shows "mark_read fs (nid n) u s = (Success n, s)"
  using assms find_one_and_update_read [of "notifications s" n]
  by (simp add: mark_read_def)


lemma createNotification_stored:
  "ty \<in> set notification_types \<Longrightarrow> fault fs 0 = None \<Longrightarrow>
   notifications (snd (createNotification fs now u ty ttl msg d s)) =
     notifications s @ [\<lparr>nid = next_id s, nuserId = u, ntype = ty, title = ttl, nmessage = msg,
        ndata = d, nread = False, ncreatedAt = now\<rparr>] \<and>
   next_id (snd (createNotification fs now u ty ttl msg d s)) = Suc (next_id s) \<and>
   fst (createNotification fs now u ty ttl msg d s) =
     Inr \<lparr>nid = next_id s, nuserId = u, ntype = ty, title = ttl, nmessage = msg,
        ndata = d, nread = False, ncreatedAt = now\<rparr>"
  by (simp add: createNotification_def Let_def io_to_emit_def push_def)

lemma read_once_notifications: "notifications read_once = [the_notice]"
proof -
  have a: "notifications (step three_users match_notice) =
      [\<lparr>nid = 0, nuserId = ''B'', ntype = ''match_accepted'', title = ''Match Accepted!'',
        nmessage = ''A accepted your match request'',
        ndata = [(''type'', JString ''match_accepted'')], nread = False, ncreatedAt = 5\<rparr>]"
    by (simp add: match_notice_def createNotification_stored fault_Nil notification_types_def
        three_users_simps)
  show ?thesis
    by (simp add: read_once_def run_def mark_read_def fault_Nil a the_notice_def)
qed

text \<open>The statement at B marking the match notification read a second time.\<close>

theorem mark_read_idempotent_witness:
  "fault [] 0 = None \<and> distinct (map nid (notifications read_once)) \<and>
   the_notice \<in> set (notifications read_once) \<and> nuserId the_notice = ''B'' \<and>
   nread the_notice \<and>
   mark_read [] 0 ''B'' read_once = (Success the_notice, read_once)"
proof -
  have h: "fault [] 0 = None"
    by (rule fault_Nil)
  have d: "distinct (map nid (notifications read_once))"
    by (simp add: read_once_notifications)
  have m: "the_notice \<in> set (notifications read_once)"
    by (simp add: read_once_notifications)
  have o: "nuserId the_notice = ''B''" and r: "nread the_notice" and i: "nid the_notice = 0"
    by (simp_all add: the_notice_def)
  show ?thesis
    using mark_read_idempotent [OF h d m o r] h d m o r i
    by simp
qed

section \<open>The read flag along runs\<close>

lemma find_one_and_update_ids:
  "map nid (snd (find_one_and_update P (\<lambda>x. x\<lparr>nread := True\<rparr>) ns)) = map nid ns"
  by (induction ns) (auto split: prod.splits)

lemma find_one_and_update_mem:
  "y \<in> set (snd (find_one_and_update P (\<lambda>x. x\<lparr>nread := True\<rparr>) ns)) \<Longrightarrow>
   \<exists>x \<in> set ns. nid y = nid x \<and> (nread x \<longrightarrow> nread y)"
  by (induction ns) (auto split: prod.splits if_splits)

lemma update_many_ids:
  "map nid (update_many P (\<lambda>x. x\<lparr>nread := True\<rparr>) ns) = map nid ns"
  by (induction ns) (auto simp add: update_many_def)

lemma update_many_mem:
  "y \<in> set (update_many P (\<lambda>x. x\<lparr>nread := True\<rparr>) ns) \<Longrightarrow>
   \<exists>x \<in> set ns. nid y = nid x \<and> (nread x \<longrightarrow> nread y)"
  by (induction ns) (auto simp add: update_many_def split: if_splits)

lemma find_one_and_delete_mem:
  "y \<in> set (snd (find_one_and_delete P ns)) \<Longrightarrow> y \<in> set ns"
  by (induction ns) (auto split: prod.splits if_splits)

lemma find_one_and_delete_subset:
  "find_one_and_delete P ns = (r, ys) \<Longrightarrow> set ys \<subseteq> set ns"
  using find_one_and_delete_mem [of _ P ns] by auto

lemma find_one_and_delete_distinct:
  "distinct (map f ns) \<Longrightarrow> distinct (map f (snd (find_one_and_delete P ns)))"
  by (induction ns) (auto split: prod.splits if_splits dest: find_one_and_delete_subset)

text \<open>A handler that only rewrites notifications in place, or removes some, keeps the invariant.\<close>

lemma read_kept_rewrite:
  assumes "read_kept i s"
    and "next_id s \<le> next_id s'"
    and "distinct (map nid (notifications s'))"
    and "\<And>y. y \<in> set (notifications s') \<Longrightarrow>
           \<exists>x \<in> set (notifications s). nid y = nid x \<and> (nread x \<longrightarrow> nread y)"
  shows "read_kept i s'"
  using assms unfolding read_kept_def fresh_ids_def
  by (metis order_less_le_trans)

lemma read_kept_unchanged:
  assumes "read_kept i s" and "notifications s' = notifications s" and "next_id s \<le> next_id s'"
  shows "read_kept i s'"
  using assms unfolding read_kept_def fresh_ids_def
  by (metis order_less_le_trans)

lemma read_kept_created:
  assumes "read_kept i s"
    and "notifications s' = notifications s @ [n]" and "nid n = next_id s"
    and "next_id s' = Suc (next_id s)"
  shows "read_kept i s'"
  using assms unfolding read_kept_def fresh_ids_def
  by (auto simp add: less_Suc_eq)

lemma send_message_notifications:
  "notifications (send_message fs now c md s) = notifications s \<and>
   next_id s \<le> next_id (send_message fs now c md s)"
  by (simp add: send_message_def Let_def socket_emit_def socket_to_emit_def push_def
      store_message_def split: option.splits)

lemma post_message_notifications:
  "notifications (snd (post_message fs now u b s)) = notifications s \<and>
   next_id s \<le> next_id (snd (post_message fs now u b s))"
  by (simp add: post_message_def Let_def io_emit_def push_def store_message_def
      split: option.splits)

lemma get_messages_notifications:
  "notifications (snd (get_messages fs u p s)) = notifications s \<and>
   next_id s \<le> next_id (snd (get_messages fs u p s))"
  by (simp add: get_messages_def Let_def split: option.splits)

lemma get_notifications_state: "snd (get_notifications fs u l k s) = s"
  by (simp add: get_notifications_def Let_def split: option.splits)

lemma post_review_notifications:
  "notifications (snd (post_review fs now rv u rt cm s)) = notifications s \<and>
   next_id s \<le> next_id (snd (post_review fs now rv u rt cm s))"
  by (simp add: post_review_def Let_def split: option.splits)

lemma createNotification_read_kept:
  assumes "read_kept i s"
  shows "read_kept i (snd (createNotification fs now u ty ttl msg d s))"
proof (cases "ty \<in> set notification_types")
  case False
  then have "snd (createNotification fs now u ty ttl msg d s) = s"
    by (simp add: createNotification_def)
  with assms show ?thesis by simp
next
  case True
  show ?thesis
  proof (cases "fault fs 0")
    case (Some e)
    with True have "snd (createNotification fs now u ty ttl msg d s) = s"
      by (simp add: createNotification_def)
    with assms show ?thesis by simp
  next
    case None
    note st = createNotification_stored [OF True None, where now = now and u = u and ttl = ttl and msg = msg and d = d and s = s]
    show ?thesis
      using assms
    proof (rule read_kept_created)
      show "notifications (snd (createNotification fs now u ty ttl msg d s)) =
              notifications s @ [\<lparr>nid = next_id s, nuserId = u, ntype = ty, title = ttl,
                nmessage = msg, ndata = d, nread = False, ncreatedAt = now\<rparr>]"
        using st by blast
      show "next_id (snd (createNotification fs now u ty ttl msg d s)) = Suc (next_id s)"
        using st by blast
      show "nid \<lparr>nid = next_id s, nuserId = u, ntype = ty, title = ttl,
                nmessage = msg, ndata = d, nread = False, ncreatedAt = now\<rparr> = next_id s"
        by simp
    qed
  qed
qed

lemma mark_read_state:
  "snd (mark_read fs j u s) = s \<or>
   snd (mark_read fs j u s) =
     s\<lparr>notifications := snd (find_one_and_update (\<lambda>n. nid n = j \<and> nuserId n = u)
                               (\<lambda>n. n\<lparr>nread := True\<rparr>) (notifications s))\<rparr>"
proof (cases "find_one_and_update (\<lambda>n. nid n = j \<and> nuserId n = u)
                (\<lambda>n. n\<lparr>nread := True\<rparr>) (notifications s)")
  case (Pair r ns)
  then show ?thesis
    by (cases r; cases "fault fs 0") (simp_all add: mark_read_def)
qed

lemma read_kept_update:
  assumes "read_kept i s"
  shows "read_kept i (s\<lparr>notifications := snd (find_one_and_update P
                               (\<lambda>n. n\<lparr>nread := True\<rparr>) (notifications s))\<rparr>)"
proof (rule read_kept_rewrite [OF assms])
  show "next_id s \<le> next_id (s\<lparr>notifications := snd (find_one_and_update P
                               (\<lambda>n. n\<lparr>nread := True\<rparr>) (notifications s))\<rparr>)"
    by simp
  show "distinct (map nid (notifications (s\<lparr>notifications := snd (find_one_and_update P
                               (\<lambda>n. n\<lparr>nread := True\<rparr>) (notifications s))\<rparr>)))"
    using assms by (simp add: find_one_and_update_ids read_kept_def fresh_ids_def)
  fix y
  assume "y \<in> set (notifications (s\<lparr>notifications := snd (find_one_and_update P
                               (\<lambda>n. n\<lparr>nread := True\<rparr>) (notifications s))\<rparr>))"
  then have "y \<in> set (snd (find_one_and_update P (\<lambda>n. n\<lparr>nread := True\<rparr>) (notifications s)))"
    by simp
  then show "\<exists>x \<in> set (notifications s). nid y = nid x \<and> (nread x \<longrightarrow> nread y)"
    by (rule find_one_and_update_mem)
qed

lemma mark_read_read_kept:
  assumes "read_kept i s"
  shows "read_kept i (snd (mark_read fs j u s))"
  using mark_read_state [of fs j u s]
proof
  assume "snd (mark_read fs j u s) = s"
  with assms show ?thesis by simp
next
  assume e: "snd (mark_read fs j u s) =
     s\<lparr>notifications := snd (find_one_and_update (\<lambda>n. nid n = j \<and> nuserId n = u)
                               (\<lambda>n. n\<lparr>nread := True\<rparr>) (notifications s))\<rparr>"
  show ?thesis
    unfolding e by (rule read_kept_update [OF assms])
qed

lemma mark_all_read_state:
  "snd (mark_all_read fs u s) = s \<or>
   snd (mark_all_read fs u s) =
     s\<lparr>notifications := update_many (\<lambda>n. nuserId n = u \<and> nread n = False)
                            (\<lambda>n. n\<lparr>nread := True\<rparr>) (notifications s)\<rparr>"
  by (cases "fault fs 0") (simp_all add: mark_all_read_def)

lemma read_kept_update_many:
  assumes "read_kept i s"
  shows "read_kept i (s\<lparr>notifications := update_many P
                               (\<lambda>n. n\<lparr>nread := True\<rparr>) (notifications s)\<rparr>)"
proof (rule read_kept_rewrite [OF assms])
  show "next_id s \<le> next_id (s\<lparr>notifications := update_many P
                               (\<lambda>n. n\<lparr>nread := True\<rparr>) (notifications s)\<rparr>)"
    by simp
  show "distinct (map nid (notifications (s\<lparr>notifications := update_many P
                               (\<lambda>n. n\<lparr>nread := True\<rparr>) (notifications s)\<rparr>)))"
    using assms by (simp add: update_many_ids read_kept_def fresh_ids_def)
  fix y
  assume "y \<in> set (notifications (s\<lparr>notifications := update_many P
                               (\<lambda>n. n\<lparr>nread := True\<rparr>) (notifications s)\<rparr>))"
  then have "y \<in> set (update_many P (\<lambda>n. n\<lparr>nread := True\<rparr>) (notifications s))"
    by simp
  then show "\<exists>x \<in> set (notifications s). nid y = nid x \<and> (nread x \<longrightarrow> nread y)"
    by (rule update_many_mem)
qed

lemma mark_all_read_read_kept:
  assumes "read_kept i s"
  shows "read_kept i (snd (mark_all_read fs u s))"
  using mark_all_read_state [of fs u s]
proof
  assume "snd (mark_all_read fs u s) = s"
  with assms show ?thesis by simp
next
  assume e: "snd (mark_all_read fs u s) =
     s\<lparr>notifications := update_many (\<lambda>n. nuserId n = u \<and> nread n = False)
                            (\<lambda>n. n\<lparr>nread := True\<rparr>) (notifications s)\<rparr>"
  show ?thesis
    unfolding e by (rule read_kept_update_many [OF assms])
qed

lemma delete_notification_state:
  "snd (delete_notification fs j u s) = s \<or>
   snd (delete_notification fs j u s) =
     s\<lparr>notifications := snd (find_one_and_delete (\<lambda>n. nid n = j \<and> nuserId n = u)
                               (notifications s))\<rparr>"
proof (cases "find_one_and_delete (\<lambda>n. nid n = j \<and> nuserId n = u) (notifications s)")
  case (Pair r ns)
  then show ?thesis
    by (cases r; cases "fault fs 0") (simp_all add: delete_notification_def)
qed

lemma read_kept_delete:
  assumes "read_kept i s"
  shows "read_kept i (s\<lparr>notifications := snd (find_one_and_delete P (notifications s))\<rparr>)"
proof (rule read_kept_rewrite [OF assms])
  show "next_id s \<le> next_id (s\<lparr>notifications := snd (find_one_and_delete P (notifications s))\<rparr>)"
    by simp
  show "distinct (map nid (notifications
          (s\<lparr>notifications := snd (find_one_and_delete P (notifications s))\<rparr>)))"
    using assms by (simp add: find_one_and_delete_distinct read_kept_def fresh_ids_def)
  fix y
  assume "y \<in> set (notifications
            (s\<lparr>notifications := snd (find_one_and_delete P (notifications s))\<rparr>))"
  then have "y \<in> set (snd (find_one_and_delete P (notifications s)))"
    by simp
  then have "y \<in> set (notifications s)"
    by (rule find_one_and_delete_mem)
  then show "\<exists>x \<in> set (notifications s). nid y = nid x \<and> (nread x \<longrightarrow> nread y)"
    by blast
qed

lemma delete_notification_read_kept:
  assumes "read_kept i s"
  shows "read_kept i (snd (delete_notification fs j u s))"
  using delete_notification_state [of fs j u s]
proof
  assume "snd (delete_notification fs j u s) = s"
  with assms show ?thesis by simp
next
  assume e: "snd (delete_notification fs j u s) =
     s\<lparr>notifications := snd (find_one_and_delete (\<lambda>n. nid n = j \<and> nuserId n = u)
                               (notifications s))\<rparr>"
  show ?thesis
    unfolding e by (rule read_kept_delete [OF assms])
qed

lemma step_read_kept: "read_kept i s \<Longrightarrow> read_kept i (step s r)"
proof (cases r)
  case (CreateNotification fs now u ty ttl msg d)
  assume "read_kept i s"
  then show ?thesis
    unfolding CreateNotification step.simps by (rule createNotification_read_kept)
next
  case (MarkRead fs j u)
  assume "read_kept i s"
  then show ?thesis
    unfolding MarkRead step.simps by (rule mark_read_read_kept)
next
  case (MarkAllRead fs u)
  assume "read_kept i s"
  then show ?thesis
    unfolding MarkAllRead step.simps by (rule mark_all_read_read_kept)
next
  case (DeleteNotification fs j u)
  assume "read_kept i s"
  then show ?thesis
    unfolding DeleteNotification step.simps by (rule delete_notification_read_kept)
next
  case (SendMessage fs now c md)
  assume "read_kept i s"
  then show ?thesis
    unfolding SendMessage step.simps
    by (rule read_kept_unchanged) (simp_all add: send_message_notifications)
next
  case (PostMessage fs now u b)
  assume "read_kept i s"
  then show ?thesis
    unfolding PostMessage step.simps
    by (rule read_kept_unchanged) (simp_all add: post_message_notifications)
next
  case (GetMessages fs u p)
  assume "read_kept i s"
  then show ?thesis
    unfolding GetMessages step.simps
    by (rule read_kept_unchanged) (simp_all add: get_messages_notifications)
next
  case (PostReview fs now rv u rt cm)
  assume "read_kept i s"
  then show ?thesis
    unfolding PostReview step.simps
    by (rule read_kept_unchanged) (simp_all add: post_review_notifications)
next
  case (GetNotifications fs u l k)
  assume "read_kept i s"
  then show ?thesis
    unfolding GetNotifications step.simps by (simp add: get_notifications_state)
next
  case (Connection c)
  assume "read_kept i s"
  then show ?thesis
    unfolding Connection step.simps
    by (rule read_kept_unchanged) (simp_all add: on_connection_def)
next
  case (JoinUser c u)
  assume "read_kept i s"
  then show ?thesis
    unfolding JoinUser step.simps
    by (rule read_kept_unchanged) (simp_all add: join_user_def)
next
  case (Disconnect c)
  assume "read_kept i s"
  then show ?thesis
    unfolding Disconnect step.simps
    by (rule read_kept_unchanged) (simp_all add: on_disconnect_def)
next
  case (TypingStart c d)
  assume "read_kept i s"
  then show ?thesis
    unfolding TypingStart step.simps
    by (rule read_kept_unchanged) (simp_all add: typing_start_def socket_to_emit_def push_def)
next
  case (TypingStop c d)
  assume "read_kept i s"
  then show ?thesis
    unfolding TypingStop step.simps
    by (rule read_kept_unchanged) (simp_all add: typing_stop_def socket_to_emit_def push_def)
qed

lemma run_read_kept: "read_kept i s \<Longrightarrow> read_kept i (run s reqs)"
  unfolding run_def
  by (induction reqs arbitrary: s) (simp_all add: step_read_kept)

text \<open>
  C9. From a state whose notification ids are unique and below the counter, along every
  sequence of requests and socket events (creating, listing, marking one or all read,
  deleting, and everything else the server handles), a notification that is read stays read
  for as long as a notification with its id exists.
\<close>

theorem read_flag_never_reset:
  assumes "fresh_ids s" and "n \<in> set (notifications s)" and "nread n"
    and "n' \<in> set (notifications (run s reqs))" and "nid n' = nid n"
  shows "nread n'"
proof -
  have "inj_on nid (set (notifications s))"
    using assms(1) by (simp add: fresh_ids_def distinct_map)
  then have "\<forall>x \<in> set (notifications s). nid x = nid n \<longrightarrow> x = n"
    using assms(2) by (auto dest: inj_onD)
  then have "read_kept (nid n) s"
    using assms(1-3) by (auto simp add: read_kept_def fresh_ids_def)
  then have "read_kept (nid n) (run s reqs)"
    by (rule run_read_kept)
  then show ?thesis
    using assms(4,5) by (simp add: read_kept_def)
qed

lemma read_once_next_id: "next_id read_once = 1"
proof -
  have a: "next_id (step three_users match_notice) = 1"
    by (simp add: match_notice_def createNotification_stored fault_Nil notification_types_def
        three_users_simps)
  have b: "next_id (snd (mark_read fs j u s)) = next_id s" for fs j u s
    using mark_read_state [of fs j u s] by auto
  show ?thesis
    by (simp add: read_once_def run_def a b)
qed

lemma after_read_once:
  "notifications (run read_once [MarkAllRead [] ''B'', match_notice]) =
     [the_notice,
      \<lparr>nid = 1, nuserId = ''B'', ntype = ''match_accepted'', title = ''Match Accepted!'',
       nmessage = ''A accepted your match request'',
       ndata = [(''type'', JString ''match_accepted'')], nread = False, ncreatedAt = 5\<rparr>]"
proof -
  have a: "notifications (snd (mark_all_read [] ''B'' read_once)) = [the_notice]"
    by (simp add: mark_all_read_def fault_Nil read_once_notifications update_many_def
        the_notice_def)
  have b: "next_id (snd (mark_all_read [] ''B'' read_once)) = 1"
    by (simp add: mark_all_read_def fault_Nil read_once_next_id)
  show ?thesis
    by (simp add: run_def match_notice_def createNotification_stored fault_Nil
        notification_types_def a b)
qed

text \<open>
  The statement at the read match notification, followed by marking all read and creating
  a second notification.
\<close>

theorem read_flag_never_reset_witness:
  "fresh_ids read_once \<and> the_notice \<in> set (notifications read_once) \<and> nread the_notice \<and>
   hd (notifications (run read_once [MarkAllRead [] ''B'', match_notice]))
     \<in> set (notifications (run read_once [MarkAllRead [] ''B'', match_notice])) \<and>
   nid (hd (notifications (run read_once [MarkAllRead [] ''B'', match_notice]))) = nid the_notice \<and>
   nread (hd (notifications (run read_once [MarkAllRead [] ''B'', match_notice])))"
proof -
  have f1: "fresh_ids read_once"
    by (simp add: fresh_ids_def read_once_notifications read_once_next_id the_notice_def)
  have f2: "the_notice \<in> set (notifications read_once)"
    by (simp add: read_once_notifications)
  have f3: "nread the_notice"
    by (simp add: the_notice_def)
  have f4: "hd (notifications (run read_once [MarkAllRead [] ''B'', match_notice]))
     \<in> set (notifications (run read_once [MarkAllRead [] ''B'', match_notice]))"
    by (simp add: after_read_once)
  have f5: "nid (hd (notifications (run read_once [MarkAllRead [] ''B'', match_notice]))) =
     nid the_notice"
    by (simp add: after_read_once)
  show ?thesis
    using read_flag_never_reset [OF f1 f2 f3 f4 f5] f1 f2 f3 f4 f5 by blast
qed

section \<open>Rejected reviews\<close>

lemma find_one_Some:
  "x \<in> set xs \<Longrightarrow> P x \<Longrightarrow> \<exists>y. find_one P xs = Some y"
proof -
  assume "x \<in> set xs" and "P x"
  then have "x \<in> set (filter P xs)" by simp
  then show ?thesis
    by (cases "filter P xs") (simp_all add: find_one_def)
qed

text \<open>
  With the target written exactly as the reviewer's id, or as the target of an earlier
  review by the same reviewer, the route rejects and returns the state as it was.
\<close>

lemma post_review_same_spelling:
  "(target = reviewer \<longrightarrow>
      post_review fs now reviewer target rt cm s = (Failure 400 ''Cannot review yourself'', s)) \<and>
   (target \<noteq> reviewer \<and> fault fs 0 = None \<and>
      (\<exists>r \<in> set (reviews s). ruserId r = target \<and> reviewerId r = reviewer) \<longrightarrow>
      post_review fs now reviewer target rt cm s =
        (Failure 400 ''You have already reviewed this user'', s)) \<and>
   ((\<exists>r \<in> set (reviews s). ruserId r = target \<and> reviewerId r = reviewer) \<longrightarrow>
      snd (post_review fs now reviewer target rt cm s) = s \<and>
      (\<exists>code msg. fst (post_review fs now reviewer target rt cm s) = Failure code msg))"
proof (intro conjI impI)
  assume "target = reviewer"
  then show "post_review fs now reviewer target rt cm s = (Failure 400 ''Cannot review yourself'', s)"
    by (simp add: post_review_def)
next
  assume a: "target \<noteq> reviewer \<and> fault fs 0 = None \<and>
      (\<exists>r \<in> set (reviews s). ruserId r = target \<and> reviewerId r = reviewer)"
  then obtain y where
    "find_one (\<lambda>r. ruserId r = target \<and> reviewerId r = reviewer) (reviews s) = Some y"
    using find_one_Some [of _ "reviews s" "\<lambda>r. ruserId r = target \<and> reviewerId r = reviewer"]
    by blast
  with a show "post_review fs now reviewer target rt cm s =
        (Failure 400 ''You have already reviewed this user'', s)"
    by (simp add: post_review_def)
next
  assume "\<exists>r \<in> set (reviews s). ruserId r = target \<and> reviewerId r = reviewer"
  then obtain y where
    f: "find_one (\<lambda>r. ruserId r = target \<and> reviewerId r = reviewer) (reviews s) = Some y"
    using find_one_Some [of _ "reviews s" "\<lambda>r. ruserId r = target \<and> reviewerId r = reviewer"]
    by blast
  show "snd (post_review fs now reviewer target rt cm s) = s"
    using f by (cases "fault fs 0") (simp_all add: post_review_def)
next
  assume "\<exists>r \<in> set (reviews s). ruserId r = target \<and> reviewerId r = reviewer"
  then obtain y where
    f: "find_one (\<lambda>r. ruserId r = target \<and> reviewerId r = reviewer) (reviews s) = Some y"
    using find_one_Some [of _ "reviews s" "\<lambda>r. ruserId r = target \<and> reviewerId r = reviewer"]
    by blast
  show "\<exists>code msg. fst (post_review fs now reviewer target rt cm s) = Failure code msg"
    using f by (cases "fault fs 0") (simp_all add: post_review_def)
qed

lemma cast_object_id_spellings:
  "cast_object_id ''aaaaaaaaaaaaaaaaaaaaaaa1'' = Some ''aaaaaaaaaaaaaaaaaaaaaaa1''"
  "cast_object_id ''AAAAAAAAAAAAAAAAAAAAAAA1'' = Some ''aaaaaaaaaaaaaaaaaaaaaaa1''"
  "cast_object_id ''bbbbbbbbbbbbbbbbbbbbbbb2'' = Some ''bbbbbbbbbbbbbbbbbbbbbbb2''"
  "cast_object_id ''BBBBBBBBBBBBBBBBBBBBBBB2'' = Some ''bbbbbbbbbbbbbbbbbbbbbbb2''"
  by (simp_all add: cast_object_id_def hex_digit_def lower_hex_def)

lemma two_profiles_simps:
  "reviews two_profiles = []"
  "next_id two_profiles = 0"
  "users two_profiles =
     [\<lparr>uid = ''aaaaaaaaaaaaaaaaaaaaaaa1'', firstName = ''Ada'', lastName = ''Low'', urating = 0\<rparr>,
      \<lparr>uid = ''bbbbbbbbbbbbbbbbbbbbbbb2'', firstName = ''Bob'', lastName = ''Ray'', urating = 0\<rparr>]"
  by (simp_all add: two_profiles_def init_server_def)

lemma reviewed_simps:
  "reviews reviewed =
     [\<lparr>rid = 0, ruserId = ''bbbbbbbbbbbbbbbbbbbbbbb2'', reviewerId = ''aaaaaaaaaaaaaaaaaaaaaaa1'',
       reviewerName = ''Ada Low'', rating = 4, comment = ''great'', rcreatedAt = 9\<rparr>]"
  "next_id reviewed = 1"
  "users reviewed =
     [\<lparr>uid = ''aaaaaaaaaaaaaaaaaaaaaaa1'', firstName = ''Ada'', lastName = ''Low'', urating = 0\<rparr>,
      \<lparr>uid = ''bbbbbbbbbbbbbbbbbbbbbbb2'', firstName = ''Bob'', lastName = ''Ray'', urating = 4\<rparr>]"
  by (simp_all add: reviewed_def run_def post_review_def fault_Nil find_one_def
      two_profiles_simps cast_object_id_spellings average_rating_def Let_def)

text \<open>
  C10 at a failing input. Ada, whose id is \<^verbatim>\<open>aaaaaaaaaaaaaaaaaaaaaaa1\<close>, posts a review to
  \<^verbatim>\<open>/api/users/AAAAAAAAAAAAAAAAAAAAAAA1/reviews\<close>: the target is the same user in another
  spelling, the route answers with success, stores the review and sets Ada's own rating to 5.
  After reviewing Bob (rating 4), Ada posts a second review to \<^verbatim>\<open>BBBBBBBBBBBBBBBBBBBBBBB2\<close>:
  the route answers with success, stores a second review and sets Bob's rating to 1.
\<close>

theorem post_review_other_spelling_accepted:
  "fst (post_review [] 10 ''aaaaaaaaaaaaaaaaaaaaaaa1'' ''AAAAAAAAAAAAAAAAAAAAAAA1'' 5 ''me''
          two_profiles) =
     Success \<lparr>rid = 0, ruserId = ''AAAAAAAAAAAAAAAAAAAAAAA1'',
       reviewerId = ''aaaaaaaaaaaaaaaaaaaaaaa1'', reviewerName = ''Ada Low'', rating = 5,
       comment = ''me'', rcreatedAt = 10\<rparr> \<and>
   reviews (snd (post_review [] 10 ''aaaaaaaaaaaaaaaaaaaaaaa1'' ''AAAAAAAAAAAAAAAAAAAAAAA1'' 5
                   ''me'' two_profiles)) =
     [\<lparr>rid = 0, ruserId = ''AAAAAAAAAAAAAAAAAAAAAAA1'',
       reviewerId = ''aaaaaaaaaaaaaaaaaaaaaaa1'', reviewerName = ''Ada Low'', rating = 5,
       comment = ''me'', rcreatedAt = 10\<rparr>] \<and>
   users (snd (post_review [] 10 ''aaaaaaaaaaaaaaaaaaaaaaa1'' ''AAAAAAAAAAAAAAAAAAAAAAA1'' 5
                 ''me'' two_profiles)) =
     [\<lparr>uid = ''aaaaaaaaaaaaaaaaaaaaaaa1'', firstName = ''Ada'', lastName = ''Low'', urating = 5\<rparr>,
      \<lparr>uid = ''bbbbbbbbbbbbbbbbbbbbbbb2'', firstName = ''Bob'', lastName = ''Ray'', urating = 0\<rparr>] \<and>
   fst (post_review [] 10 ''aaaaaaaaaaaaaaaaaaaaaaa1'' ''BBBBBBBBBBBBBBBBBBBBBBB2'' 1 ''again''
          reviewed) =
     Success \<lparr>rid = 1, ruserId = ''BBBBBBBBBBBBBBBBBBBBBBB2'',
       reviewerId = ''aaaaaaaaaaaaaaaaaaaaaaa1'', reviewerName = ''Ada Low'', rating = 1,
       comment = ''again'', rcreatedAt = 10\<rparr> \<and>
   length (reviews (snd (post_review [] 10 ''aaaaaaaaaaaaaaaaaaaaaaa1''
                           ''BBBBBBBBBBBBBBBBBBBBBBB2'' 1 ''again'' reviewed))) = 2 \<and>
   users (snd (post_review [] 10 ''aaaaaaaaaaaaaaaaaaaaaaa1'' ''BBBBBBBBBBBBBBBBBBBBBBB2'' 1
                 ''again'' reviewed)) =
     [\<lparr>uid = ''aaaaaaaaaaaaaaaaaaaaaaa1'', firstName = ''Ada'', lastName = ''Low'', urating = 0\<rparr>,
      \<lparr>uid = ''bbbbbbbbbbbbbbbbbbbbbbb2'', firstName = ''Bob'', lastName = ''Ray'', urating = 1\<rparr>]"
  by (simp add: post_review_def fault_Nil find_one_def two_profiles_simps reviewed_simps
      cast_object_id_spellings average_rating_def Let_def)

section \<open>Records for a recipient without connections\<close>

lemma get_messages_found:
  "fault gs 0 = None \<Longrightarrow> fault gs 1 = None \<Longrightarrow>
   fst (get_messages gs u p s) =
     Success (sort_key createdAt (filter (in_conversation u p) (messages s)))"
  by (simp add: get_messages_def Let_def)

lemma get_notifications_found:
  "fault gs 0 = None \<Longrightarrow> fault gs 1 = None \<Longrightarrow>
   fst (get_notifications gs u limit offset s) =
     Success (page (case limit of None \<Rightarrow> 50 | Some l \<Rightarrow> l)
                (case offset of None \<Rightarrow> 0 | Some k \<Rightarrow> k)
                (sort_key (\<lambda>n. - int (ncreatedAt n))
                   (filter (\<lambda>n. nuserId n = u) (notifications s))),
              length (filter (\<lambda>n. nuserId n = u \<and> \<not> nread n) (notifications s)))"
  by (simp add: get_notifications_def Let_def)

lemma sort_key_hd:
  fixes k :: "'a \<Rightarrow> int"
  assumes "x \<in> set xs" and "\<forall>y \<in> set xs. y \<noteq> x \<longrightarrow> k x < k y"
  shows "hd (sort_key k xs) = x"
proof (rule ccontr)
  assume ne: "hd (sort_key k xs) \<noteq> x"
  from assms(1) have nonempty: "sort_key k xs \<noteq> []"
    by (metis empty_iff empty_set set_sort)
  then obtain y ys where ys: "sort_key k xs = y # ys"
    by (cases "sort_key k xs") auto
  then have "y \<in> set xs"
    by (metis list.set_intros(1) set_sort)
  with ne ys assms(2) have lt: "k x < k y"
    by auto
  have "x \<in> set (sort_key k xs)"
    using assms(1) by simp
  with ys ne have "x \<in> set ys"
    by auto
  moreover have "sorted (map k (y # ys))"
    using sorted_sort_key [of k xs] ys by simp
  ultimately have "k y \<le> k x"
    by auto
  with lt show False
    by simp
qed

lemma page_first:
  "xs \<noteq> [] \<Longrightarrow> hd xs \<in> set (page l 0 xs)"
  by (cases xs; cases l) (simp_all add: page_def)

lemma page_all:
  "l = 0 \<or> length xs \<le> l \<Longrightarrow> page l 0 xs = xs"
  by (auto simp add: page_def)

lemma sent_message_fetchable:
  assumes "fault fs 0 = None" and "fault gs 0 = None" and "fault gs 1 = None"
    and "md_recipient md = r"
  shows "\<exists>found. fst (get_messages gs r (md_sender md) (send_message fs now sock md s)) = Success found \<and>
           last (messages (send_message fs now sock md s)) \<in> set found"
  using assms
  by (simp add: get_messages_found send_message_stored in_conversation_def)

lemma posted_message_fetchable:
  assumes "fault fs 0 = None" and "fault gs 0 = None" and "fault gs 1 = None"
    and "pm_recipient body = r"
  shows "\<exists>found. fst (get_messages gs r u (snd (post_message fs now u body s))) = Success found \<and>
           last (messages (snd (post_message fs now u body s))) \<in> set found"
  using assms
  by (simp add: get_messages_found post_message_stored in_conversation_def)

lemma newest_first:
  assumes "\<forall>y \<in> set ns. nuserId y = r \<longrightarrow> ncreatedAt y < ncreatedAt n" and "nuserId n = r"
  shows "hd (sort_key (\<lambda>n. - int (ncreatedAt n)) (filter (\<lambda>n. nuserId n = r) (ns @ [n]))) = n"
proof (rule sort_key_hd)
  show "n \<in> set (filter (\<lambda>n. nuserId n = r) (ns @ [n]))"
    using assms(2) by simp
  show "\<forall>y \<in> set (filter (\<lambda>n. nuserId n = r) (ns @ [n])).
          y \<noteq> n \<longrightarrow> - int (ncreatedAt n) < - int (ncreatedAt y)"
    using assms(1) by auto
qed

lemma appended_in_page:
  assumes "nuserId n = r"
    and "l = 0 \<or> length (filter (\<lambda>n. nuserId n = r) ns) < l \<or>
         (\<forall>y \<in> set ns. nuserId y = r \<longrightarrow> ncreatedAt y < ncreatedAt n)"
  shows "n \<in> set (page l 0 (sort_key (\<lambda>n. - int (ncreatedAt n))
                              (filter (\<lambda>n. nuserId n = r) (ns @ [n]))))"
proof (cases "l = 0 \<or> length (filter (\<lambda>n. nuserId n = r) ns) < l")
  case True
  then have "l = 0 \<or> length (sort_key (\<lambda>n. - int (ncreatedAt n))
                              (filter (\<lambda>n. nuserId n = r) (ns @ [n]))) \<le> l"
    using assms(1) by auto
  then have "page l 0 (sort_key (\<lambda>n. - int (ncreatedAt n))
                              (filter (\<lambda>n. nuserId n = r) (ns @ [n]))) =
             sort_key (\<lambda>n. - int (ncreatedAt n)) (filter (\<lambda>n. nuserId n = r) (ns @ [n]))"
    by (rule page_all)
  then show ?thesis
    using assms(1) by simp
next
  case False
  with assms(2) have "\<forall>y \<in> set ns. nuserId y = r \<longrightarrow> ncreatedAt y < ncreatedAt n"
    by blast
  then have h: "hd (sort_key (\<lambda>n. - int (ncreatedAt n))
                  (filter (\<lambda>n. nuserId n = r) (ns @ [n]))) = n"
    using assms(1) by (rule newest_first)
  have "sort_key (\<lambda>n. - int (ncreatedAt n)) (filter (\<lambda>n. nuserId n = r) (ns @ [n])) \<noteq> []"
  proof
    assume "sort_key (\<lambda>n. - int (ncreatedAt n)) (filter (\<lambda>n. nuserId n = r) (ns @ [n])) = []"
    then have "set (sort_key (\<lambda>n. - int (ncreatedAt n))
                 (filter (\<lambda>n. nuserId n = r) (ns @ [n]))) = {}"
      by simp
    then show False
      using assms(1) by simp
  qed
  then have "hd (sort_key (\<lambda>n. - int (ncreatedAt n)) (filter (\<lambda>n. nuserId n = r) (ns @ [n])))
      \<in> set (page l 0 (sort_key (\<lambda>n. - int (ncreatedAt n))
                              (filter (\<lambda>n. nuserId n = r) (ns @ [n]))))"
    by (rule page_first)
  with h show ?thesis
    by simp
qed

lemma created_notification_fetchable:
  assumes "fault fs 0 = None" and "fault gs 0 = None" and "fault gs 1 = None"
    and "ty \<in> set notification_types"
    and "offset = None \<or> offset = Some 0"
    and "limit = Some 0 \<or>
         length (filter (\<lambda>n. nuserId n = r) (notifications s))
           < (case limit of None \<Rightarrow> 50 | Some l \<Rightarrow> l) \<or>
         (\<forall>n \<in> set (notifications s). nuserId n = r \<longrightarrow> ncreatedAt n < now)"
  shows "\<exists>found unread.
           fst (get_notifications gs r limit offset
                  (snd (createNotification fs now r ty ttl msg d s))) = Success (found, unread) \<and>
           last (notifications (snd (createNotification fs now r ty ttl msg d s))) \<in> set found"
proof -
  let ?n = "\<lparr>nid = next_id s, nuserId = r, ntype = ty, title = ttl, nmessage = msg,
        ndata = d, nread = False, ncreatedAt = now\<rparr>"
  let ?l = "case limit of None \<Rightarrow> 50 | Some l \<Rightarrow> l"
  note st = createNotification_stored [OF assms(4) assms(1), where now = now and u = r and ttl = ttl and msg = msg and d = d and s = s]
  have off: "(case offset of None \<Rightarrow> 0 | Some k \<Rightarrow> k) = 0"
    using assms(5) by auto
  have "?l = 0 \<or> length (filter (\<lambda>n. nuserId n = r) (notifications s)) < ?l \<or>
         (\<forall>y \<in> set (notifications s). nuserId y = r \<longrightarrow> ncreatedAt y < ncreatedAt ?n)"
    using assms(6) by auto
  then have "?n \<in> set (page ?l 0 (sort_key (\<lambda>n. - int (ncreatedAt n))
                              (filter (\<lambda>n. nuserId n = r) (notifications s @ [?n]))))"
    by (rule appended_in_page [rotated]) simp
  moreover have "fst (get_notifications gs r limit offset
                  (snd (createNotification fs now r ty ttl msg d s))) =
     Success (page ?l 0 (sort_key (\<lambda>n. - int (ncreatedAt n))
                              (filter (\<lambda>n. nuserId n = r) (notifications s @ [?n]))),
              length (filter (\<lambda>n. nuserId n = r \<and> \<not> nread n) (notifications s @ [?n])))"
    unfolding get_notifications_found [OF assms(2,3)] off using st by simp
  moreover have "last (notifications (snd (createNotification fs now r ty ttl msg d s))) = ?n"
    using st by simp
  ultimately show ?thesis
    by simp
qed

text \<open>
  C7. Let the recipient have no live connection and let the database calls succeed. A chat
  message sent over the socket or posted to the route is appended to the message collection,
  and the recipient's fetch of the conversation with the sender returns it. A notification of
  a valid type is appended to the notification collection, and the recipient's listing
  returns it when it starts at offset 0 and either has no limit, or a limit above the number
  of the recipient's earlier notifications, or the new notification is strictly the newest.
\<close>

theorem offline_recipient_record_fetchable:
  assumes "rooms s (user_room r) = {}"
    and "fault fs 0 = None" and "fault gs 0 = None" and "fault gs 1 = None"
    and "md_recipient md = r" and "pm_recipient body = r"
    and "ty \<in> set notification_types"
    and "offset = None \<or> offset = Some 0"
    and "limit = Some 0 \<or>
         length (filter (\<lambda>n. nuserId n = r) (notifications s))
           < (case limit of None \<Rightarrow> 50 | Some l \<Rightarrow> l) \<or>
         (\<forall>n \<in> set (notifications s). nuserId n = r \<longrightarrow> ncreatedAt n < now)"
  shows "(messages (send_message fs now sock md s) =
            messages s @ [last (messages (send_message fs now sock md s))] \<and>
          (\<exists>found.
             fst (get_messages gs r (md_sender md) (send_message fs now sock md s)) = Success found \<and>
             last (messages (send_message fs now sock md s)) \<in> set found)) \<and>
         (messages (snd (post_message fs now u body s)) =
            messages s @ [last (messages (snd (post_message fs now u body s)))] \<and>
          (\<exists>found.
             fst (get_messages gs r u (snd (post_message fs now u body s))) = Success found \<and>
             last (messages (snd (post_message fs now u body s))) \<in> set found)) \<and>
         (notifications (snd (createNotification fs now r ty ttl msg d s)) =
            notifications s @ [last (notifications (snd (createNotification fs now r ty ttl msg d s)))] \<and>
          fst (createNotification fs now r ty ttl msg d s) =
            Inr (last (notifications (snd (createNotification fs now r ty ttl msg d s)))) \<and>
          (\<exists>found unread.
             fst (get_notifications gs r limit offset
                    (snd (createNotification fs now r ty ttl msg d s))) = Success (found, unread) \<and>
             last (notifications (snd (createNotification fs now r ty ttl msg d s))) \<in> set found))"
proof -
  have a: "messages (send_message fs now sock md s) =
            messages s @ [last (messages (send_message fs now sock md s))]"
    using assms(2) by (simp add: send_message_stored)
  have b: "messages (snd (post_message fs now u body s)) =
            messages s @ [last (messages (snd (post_message fs now u body s)))]"
    using assms(2) by (simp add: post_message_stored)
  note st = createNotification_stored [OF assms(7) assms(2), where now = now and u = r and ttl = ttl and msg = msg and d = d and s = s]
  have c: "notifications (snd (createNotification fs now r ty ttl msg d s)) =
            notifications s @ [last (notifications (snd (createNotification fs now r ty ttl msg d s)))]"
    using st by simp
  have c': "fst (createNotification fs now r ty ttl msg d s) =
            Inr (last (notifications (snd (createNotification fs now r ty ttl msg d s))))"
    using st by simp
  show ?thesis
    using a b c c'
      sent_message_fetchable [OF assms(2,3,4,5), where now = now and sock = sock and s = s]
      posted_message_fetchable [OF assms(2,3,4,6), where now = now and u = u and s = s]
      created_notification_fetchable [OF assms(2,3,4,7,8,9), where ttl = ttl and msg = msg and d = d]
    by blast
qed

text \<open>The statement at D, who has no connection, with the default listing.\<close>

theorem offline_recipient_record_fetchable_witness:
  "rooms three_users (user_room ''D'') = {} \<and> fault [] 0 = None \<and> fault [] 1 = None \<and>
   md_recipient offline_data = ''D'' \<and> pm_recipient offline_body = ''D'' \<and>
   ''match_accepted'' \<in> set notification_types \<and>
   length (filter (\<lambda>n. nuserId n = ''D'') (notifications three_users)) < 50 \<and>
   (\<exists>found.
      fst (get_messages [] ''D'' ''A'' (send_message [] 7 1 offline_data three_users)) = Success found \<and>
      last (messages (send_message [] 7 1 offline_data three_users)) \<in> set found) \<and>
   (\<exists>found.
      fst (get_messages [] ''D'' ''A'' (snd (post_message [] 7 ''A'' offline_body three_users)))
        = Success found \<and>
      last (messages (snd (post_message [] 7 ''A'' offline_body three_users))) \<in> set found) \<and>
   (\<exists>found unread.
      fst (get_notifications [] ''D'' None None
             (snd (createNotification [] 7 ''D'' ''match_accepted'' ''Match Accepted!''
                     ''A accepted your match request'' [] three_users))) = Success (found, unread) \<and>
      last (notifications
             (snd (createNotification [] 7 ''D'' ''match_accepted'' ''Match Accepted!''
                     ''A accepted your match request'' [] three_users))) \<in> set found)"
proof -
  have z: "rooms three_users (user_room ''D'') = {}"
    by (simp add: three_users_def run_def init_server_def on_connection_def join_user_def
        user_room_def)
  have h0: "fault [] 0 = None" and h1: "fault [] 1 = None"
    by (rule fault_Nil)+
  have r1: "md_recipient offline_data = ''D''" and s1: "md_sender offline_data = ''A''"
    by (simp_all add: offline_data_def)
  have r2: "pm_recipient offline_body = ''D''"
    by (simp add: offline_body_def)
  have ty: "''match_accepted'' \<in> set notification_types"
    by (simp add: notification_types_def)
  have off: "(None :: nat option) = None \<or> None = Some (0 :: nat)"
    by simp
  have len: "length (filter (\<lambda>n. nuserId n = ''D'') (notifications three_users)) < 50"
    by (simp add: three_users_simps)
  then have pg: "None = Some (0 :: nat) \<or>
         length (filter (\<lambda>n. nuserId n = ''D'') (notifications three_users))
           < (case None of None \<Rightarrow> 50 | Some l \<Rightarrow> l) \<or>
         (\<forall>n \<in> set (notifications three_users). nuserId n = ''D'' \<longrightarrow> ncreatedAt n < 7)"
    by simp
  show ?thesis
    using offline_recipient_record_fetchable [OF z h0 h0 h1 r1 r2 ty off pg,
        where sock = 1 and u = "''A''" and ttl = "''Match Accepted!''"
          and msg = "''A accepted your match request''" and d = "[]"]
      z h0 h1 r1 r2 ty len
    unfolding s1
    by blast
qed

end
